theory Spec2Isabelle
  imports Main "HOL-Library.Word" "HOL-Library.Product_Lexorder"
begin

section \<open>Common types\<close>

text \<open>
  \<open>Status\<close> is either \<open>Status::OK()\<close> or an error code with a message.  Only the codes
  that the embedded functions construct are named; every other code is \<open>OtherCode\<close>.
\<close>

datatype ErrorCode = InternalError | EndOfFile | Cancelled | InvalidArgument | OtherCode nat

datatype Status = OK | Err ErrorCode string

definition ok :: "Status \<Rightarrow> bool" where
  "ok st = (st = OK)"

text \<open>\<open>TUniqueId\<close>: two signed 64-bit halves.\<close>

datatype TUniqueId = TUniqueId (hi: "64 word") (lo: "64 word")

text \<open>
  \<open>PPlanFragmentCancelReason\<close>.  The enum is declared outside the sources at hand; the
  values the sources name are constructors of their own, any other value is
  \<open>OTHER_REASON\<close> with its name.
\<close>

datatype PPlanFragmentCancelReason =
  LIMIT_REACH | USER_CANCEL | INTERNAL_ERROR | TIMEOUT | OTHER_REASON string

fun PPlanFragmentCancelReason_Name :: "PPlanFragmentCancelReason \<Rightarrow> string" where
  "PPlanFragmentCancelReason_Name LIMIT_REACH = ''LIMIT_REACH''"
| "PPlanFragmentCancelReason_Name USER_CANCEL = ''USER_CANCEL''"
| "PPlanFragmentCancelReason_Name INTERNAL_ERROR = ''INTERNAL_ERROR''"
| "PPlanFragmentCancelReason_Name TIMEOUT = ''TIMEOUT''"
| "PPlanFragmentCancelReason_Name (OTHER_REASON name) = name"

section \<open>FragmentExecState (runtime/fragment\_mgr.cpp)\<close>

text \<open>
  \<open>PlanFragmentExecutor\<close> is a collaborator whose body is not part of the sources.  The
  model keeps the one flag that \<open>FragmentExecState::cancel\<close> writes through
  \<open>set_is_report_on_cancel\<close> and the sequence of \<open>cancel(reason, msg)\<close> calls the
  executor has received, oldest first.
\<close>

record PlanFragmentExecutor =
  is_report_on_cancel :: bool
  cancel_calls :: "(PPlanFragmentCancelReason \<times> string) list"

definition executor_cancel ::
  "PPlanFragmentCancelReason \<Rightarrow> string \<Rightarrow> PlanFragmentExecutor \<Rightarrow> PlanFragmentExecutor" where
  "executor_cancel reason msg e = e\<lparr>cancel_calls := cancel_calls e @ [(reason, msg)]\<rparr>"

text \<open>
  Times are whole seconds (\<open>VecDateTimeValue\<close> has second resolution).  The shared
  \<open>QueryFragmentsCtx\<close> of a fragment is the one registered under its \<open>query_id\<close>.
\<close>

record FragmentExecState =
  query_id :: TUniqueId
  fragment_instance_id :: TUniqueId
  backend_num :: int
  executor :: PlanFragmentExecutor
  start_time :: int
  exec_status :: Status
  timeout_second :: int
  cancelled :: bool
  need_wait_execution_trigger :: bool

text \<open>
  The stream-load manager (\<open>new_load_stream_mgr()\<close>): for every load id its pipe, kept as
  the list of cancel reasons the pipe has received.
\<close>

type_synonym NewLoadStreamMgr = "TUniqueId \<rightharpoonup> string list"

text \<open>\<open>FragmentExecState::update_status\<close>.\<close>

definition update_status :: "Status \<Rightarrow> FragmentExecState \<Rightarrow> Status \<times> FragmentExecState" where
  "update_status status s =
     (let s' = (if \<not> ok status \<and> ok (exec_status s) then s\<lparr>exec_status := status\<rparr> else s)
      in (exec_status s', s'))"

text \<open>A sequence of \<open>update_status\<close> calls, in order.\<close>

fun update_status_seq :: "Status list \<Rightarrow> FragmentExecState \<Rightarrow> FragmentExecState" where
  "update_status_seq [] s = s"
| "update_status_seq (st # sts) s = update_status_seq sts (snd (update_status st s))"

text \<open>
  Modelled from the spec: \<open>VecDateTimeValue::second_diff\<close> is declared outside the
  sources; on times in seconds it is the elapsed time since \<open>start\<close>.
\<close>

definition second_diff :: "int \<Rightarrow> int \<Rightarrow> int" where
  "second_diff now start = now - start"

text \<open>\<open>FragmentExecState::is_timeout\<close>.\<close>

definition is_timeout :: "FragmentExecState \<Rightarrow> int \<Rightarrow> bool" where
  "is_timeout s now =
     (if timeout_second s \<le> 0 then False
      else if second_diff now (start_time s) > timeout_second s then True
      else False)"

text \<open>
  \<open>FragmentExecState::cancel\<close>.  It works on the fragment state and on the pipe that the
  stream-load manager holds under the fragment's query id.
\<close>

definition cancel ::
  "PPlanFragmentCancelReason \<Rightarrow> string \<Rightarrow> FragmentExecState \<times> NewLoadStreamMgr \<Rightarrow>
   Status \<times> FragmentExecState \<times> NewLoadStreamMgr" where
  "cancel reason msg w =
     (case w of (s, mgr) \<Rightarrow>
        if \<not> cancelled s then
          (let e1 = (if reason = LIMIT_REACH then (executor s)\<lparr>is_report_on_cancel := False\<rparr>
                     else executor s);
               e2 = executor_cancel reason msg e1;
               mgr' = (case mgr (query_id s) of
                         None \<Rightarrow> mgr
                       | Some pipe \<Rightarrow>
                           mgr(query_id s \<mapsto> pipe @ [PPlanFragmentCancelReason_Name reason]))
           in (OK, s\<lparr>executor := e2, cancelled := True\<rparr>, mgr'))
        else (OK, s, mgr))"

text \<open>A sequence of \<open>cancel\<close> calls, in order.\<close>

fun cancel_seq ::
  "(PPlanFragmentCancelReason \<times> string) list \<Rightarrow> FragmentExecState \<times> NewLoadStreamMgr \<Rightarrow>
   FragmentExecState \<times> NewLoadStreamMgr" where
  "cancel_seq [] w = w"
| "cancel_seq ((reason, msg) # cs) w = cancel_seq cs (snd (cancel reason msg w))"

section \<open>Query contexts (runtime/fragment\_mgr.cpp, \<open>_get_query_ctx\<close>)\<close>

datatype TQueryType = SELECT | LOAD | EXTERNAL

text \<open>
  The fields of the Thrift request that the manager reads.  An optional Thrift field
  (\<open>__isset.f\<close> together with \<open>f\<close>) is an \<open>option\<close>.  64-bit quantities are words,
  compared as signed numbers.
\<close>

record TQueryOptions =
  mem_limit :: "64 word option"
  query_type :: TQueryType
  execution_timeout :: int
  enable_pipeline_engine :: "bool option"
  is_report_success :: "bool option"
  cpu_limit :: "int option"

record TExecPlanFragmentParams =
  params_fragment_instance_id :: TUniqueId
  params_query_id :: TUniqueId
  is_simplified_param :: bool
  fragment_num_on_host :: int
  coord :: string
  resource_info :: "(string \<times> string) option"
  isset_query_options :: bool
  query_options :: TQueryOptions
  params_backend_num :: int
  params_need_wait_execution_trigger :: "bool option"

datatype MemTrackerType = Type_QUERY | Type_LOAD

record MemTrackerLimiter =
  tracker_type :: MemTrackerType
  tracker_label :: "string \<times> TUniqueId"
  tracker_limit :: "64 word"
  print_log_usage :: bool

datatype TaskGroupId = DEFAULT_TG_ID | SHORT_TG_ID

text \<open>
  Modelled from the spec: the class \<open>QueryFragmentsCtx\<close> is declared outside the
  sources.  These are the attributes the spec lists for a query context and that
  \<open>_get_query_ctx\<close> and the manager read or write: the live-fragment counter, the
  registered fragment-instance ids in order, the timeout, the ready-to-execute gate, the
  memory tracker and the task group.
\<close>

record QueryFragmentsCtx =
  ctx_query_id :: TUniqueId
  ctx_fragment_num :: int
  ctx_coord_addr :: string
  ctx_rsc_info :: "(string \<times> string) option"
  ctx_pipeline_engine_enabled :: bool
  ctx_timeout_second :: int
  ctx_start_time :: int
  ctx_thread_token :: "(int \<times> bool) option"
  query_mem_tracker :: MemTrackerLimiter
  ctx_task_group :: "TaskGroupId option"
  fragment_ids :: "TUniqueId list"
  ready_to_execute :: bool

text \<open>
  What the manager obtains from its environment during one request: the clock, the
  process-wide memory ceiling \<open>MemInfo::mem_limit()\<close>, a configuration value, and the
  results of the collaborators it calls (descriptor-table creation, executor and pipeline
  preparation, the worker pool, the pipeline scheduler).
\<close>

record ExecEnv =
  local_time :: int
  process_mem_limit :: "64 word"
  pipeline_short_query_timeout_s :: int
  desc_tbl_create :: Status
  executor_prepare :: Status
  thread_pool_submit :: Status
  pipeline_prepare :: Status
  pipeline_submit :: Status

text \<open>
  The memory-tracker byte limit computed in \<open>_get_query_ctx\<close>: the requested limit when
  it is set and positive, otherwise \<open>-1\<close>; replaced by the process limit when it exceeds it.
\<close>

definition query_bytes_limit :: "TQueryOptions \<Rightarrow> 64 word \<Rightarrow> 64 word" where
  "query_bytes_limit opts process_limit =
     (let has_query_mem_tracker = (case mem_limit opts of None \<Rightarrow> False | Some v \<Rightarrow> 0 <s v);
          bytes_limit = (case mem_limit opts of
                           None \<Rightarrow> - 1
                         | Some v \<Rightarrow> if has_query_mem_tracker then v else - 1)
      in if process_limit <s bytes_limit then process_limit else bytes_limit)"

text \<open>
  The else-branch of \<open>_get_query_ctx\<close> up to the registration: the construction of a
  new context from the request.  It fails when the descriptor table cannot be created.
\<close>

definition new_query_ctx ::
  "ExecEnv \<Rightarrow> TExecPlanFragmentParams \<Rightarrow> TUniqueId \<Rightarrow> bool \<Rightarrow> Status + QueryFragmentsCtx" where
  "new_query_ctx env params qid pipeline =
     (if \<not> ok (desc_tbl_create env) then Inl (desc_tbl_create env)
      else
        let opts = query_options params;
            bytes_limit = query_bytes_limit opts (process_mem_limit env);
            tracker =
              (if query_type opts = SELECT then
                 \<lparr>tracker_type = Type_QUERY, tracker_label = (''Query#Id='', qid),
                  tracker_limit = bytes_limit, print_log_usage = False\<rparr>
               else if query_type opts = LOAD then
                 \<lparr>tracker_type = Type_LOAD, tracker_label = (''Load#Id='', qid),
                  tracker_limit = bytes_limit, print_log_usage = False\<rparr>
               else
                 \<lparr>tracker_type = Type_LOAD, tracker_label = (''External#Id='', qid),
                  tracker_limit = bytes_limit, print_log_usage = False\<rparr>);
            tracker' = (if is_report_success opts = Some True
                        then tracker\<lparr>print_log_usage := True\<rparr> else tracker);
            ts = execution_timeout opts;
            tg = (if pipeline then
                    Some (if ts > 0 \<and> ts \<le> pipeline_short_query_timeout_s env
                          then SHORT_TG_ID else DEFAULT_TG_ID)
                  else None)
        in Inr \<lparr>ctx_query_id = qid,
                ctx_fragment_num = fragment_num_on_host params,
                ctx_coord_addr = coord params,
                ctx_rsc_info = resource_info params,
                ctx_pipeline_engine_enabled = pipeline,
                ctx_timeout_second = ts,
                ctx_start_time = local_time env,
                ctx_thread_token = (case cpu_limit opts of None \<Rightarrow> None
                                    | Some c \<Rightarrow> Some (c, False)),
                query_mem_tracker = tracker',
                ctx_task_group = tg,
                fragment_ids = [],
                ready_to_execute = False\<rparr>)"

section \<open>The fragment manager (runtime/fragment\_mgr.cpp, \<open>FragmentMgr\<close>)\<close>

text \<open>
  A \<open>std::unordered_map\<close> is a list of pairs with distinct keys; the order of the list
  stands for the iteration order.  \<open>insert\<close> keeps an existing entry.
\<close>

definition umap_find :: "('k \<times> 'v) list \<Rightarrow> 'k \<Rightarrow> 'v option" where
  "umap_find m k = map_of m k"

definition umap_insert :: "('k \<times> 'v) list \<Rightarrow> 'k \<Rightarrow> 'v \<Rightarrow> ('k \<times> 'v) list" where
  "umap_insert m k v = (if umap_find m k = None then m @ [(k, v)] else m)"

definition umap_erase :: "('k \<times> 'v) list \<Rightarrow> 'k \<Rightarrow> ('k \<times> 'v) list" where
  "umap_erase m k = filter (\<lambda>kv. fst kv \<noteq> k) m"

text \<open>A write through the pointer stored under key \<open>k\<close>.\<close>

definition umap_update :: "('k \<times> 'v) list \<Rightarrow> 'k \<Rightarrow> ('v \<Rightarrow> 'v) \<Rightarrow> ('k \<times> 'v) list" where
  "umap_update m k f = map (\<lambda>kv. if fst kv = k then (fst kv, f (snd kv)) else kv) m"

text \<open>
  Modelled from the spec: \<open>PipelineFragmentContext\<close> is declared outside the sources.
  The manager reads its cancelled flag (\<open>is_canceled\<close>) and calls \<open>cancel\<close>, which
  per the spec is monotonic; the calls received are kept, oldest first.
\<close>

record PipelineFragmentContext =
  pfc_query_id :: TUniqueId
  pfc_fragment_instance_id :: TUniqueId
  pfc_backend_num :: int
  pfc_cancelled :: bool
  pfc_cancel_calls :: "(PPlanFragmentCancelReason \<times> string) list"

definition pfc_cancel ::
  "PPlanFragmentCancelReason \<Rightarrow> string \<Rightarrow> PipelineFragmentContext \<Rightarrow> PipelineFragmentContext" where
  "pfc_cancel reason msg c =
     c\<lparr>pfc_cancelled := True, pfc_cancel_calls := pfc_cancel_calls c @ [(reason, msg)]\<rparr>"

text \<open>
  The three registries guarded by \<open>_lock\<close>, and the collaborators the manager hands work
  to: the worker pool (the instances whose \<open>_exec_actual\<close> task was queued), the pipeline
  scheduler (the instances submitted), the runtime-filter controller (the instances
  registered with \<open>add_entity\<close>) and the stream-load manager.  A query context is shared
  by pointer in the source; here the registry holds it and a fragment reaches it through
  its query id.
\<close>

record FragmentMgr =
  fragment_map :: "(TUniqueId \<times> FragmentExecState) list"
  pipeline_map :: "(TUniqueId \<times> PipelineFragmentContext) list"
  fragments_ctx_map :: "(TUniqueId \<times> QueryFragmentsCtx) list"
  thread_pool_tasks :: "TUniqueId list"
  pipeline_tasks :: "TUniqueId list"
  runtimefilter_entities :: "TUniqueId list"
  load_stream_mgr :: NewLoadStreamMgr

definition query_ctx_not_found :: Status where
  "query_ctx_not_found =
     Err InternalError
       ''Failed to get query fragments context. Query may be timeout or be cancelled. host: {}''"

text \<open>
  \<open>FragmentMgr::_get_query_ctx\<close>.  On success the result is the context the request
  uses, which is then the one registered under \<open>qid\<close>.
\<close>

definition get_query_ctx ::
  "ExecEnv \<Rightarrow> TExecPlanFragmentParams \<Rightarrow> TUniqueId \<Rightarrow> bool \<Rightarrow> FragmentMgr \<Rightarrow>
   (Status + QueryFragmentsCtx) \<times> FragmentMgr" where
  "get_query_ctx env params qid pipeline m =
     (if is_simplified_param params then
        (case umap_find (fragments_ctx_map m) qid of
           None \<Rightarrow> (Inl query_ctx_not_found, m)
         | Some c \<Rightarrow> (Inr c, m))
      else
        (case new_query_ctx env params qid pipeline of
           Inl err \<Rightarrow> (Inl err, m)
         | Inr c \<Rightarrow>
             (case umap_find (fragments_ctx_map m) qid of
                None \<Rightarrow>
                  (Inr c, m\<lparr>fragments_ctx_map := umap_insert (fragments_ctx_map m) (ctx_query_id c) c\<rparr>)
              | Some c' \<Rightarrow> (Inr c', m))))"

text \<open>\<open>FragmentExecState::prepare\<close>: the timeout comes from the request's query options.\<close>

definition prepare :: "ExecEnv \<Rightarrow> TExecPlanFragmentParams \<Rightarrow> FragmentExecState \<Rightarrow>
    Status \<times> FragmentExecState" where
  "prepare env params s =
     (let s' = (if isset_query_options params
                then s\<lparr>timeout_second := execution_timeout (query_options params)\<rparr> else s)
      in (executor_prepare env, s'))"

text \<open>
  \<open>FragmentMgr::exec_plan_fragment(const TExecPlanFragmentParams&, const FinishCallback&)\<close>.
  The calls that only build the broadcast-join controller entry, the tracing spans and the
  latency recorder are left out.
\<close>

definition exec_plan_fragment ::
  "ExecEnv \<Rightarrow> TExecPlanFragmentParams \<Rightarrow> FragmentMgr \<Rightarrow> Status \<times> FragmentMgr" where
  "exec_plan_fragment env params m =
     (let fragment_instance_id = params_fragment_instance_id params in
      if umap_find (fragment_map m) fragment_instance_id \<noteq> None then (OK, m)
      else
        let pipeline_engine_enabled = (enable_pipeline_engine (query_options params) = Some True) in
        case get_query_ctx env params (params_query_id params) pipeline_engine_enabled m of
          (Inl err, m1) \<Rightarrow> (err, m1)
        | (Inr ctx, m1) \<Rightarrow>
            let qid = ctx_query_id ctx;
                m2 = m1\<lparr>fragments_ctx_map :=
                          umap_update (fragments_ctx_map m1) qid
                            (\<lambda>c. c\<lparr>fragment_ids := fragment_ids c @ [fragment_instance_id]\<rparr>)\<rparr>;
                wait = (params_need_wait_execution_trigger params = Some True);
                exec_state =
                  \<lparr>query_id = qid, fragment_instance_id = fragment_instance_id,
                   backend_num = params_backend_num params,
                   executor = \<lparr>is_report_on_cancel = True, cancel_calls = []\<rparr>,
                   start_time = local_time env, exec_status = OK, timeout_second = - 1,
                   cancelled = False, need_wait_execution_trigger = wait\<rparr>
            in
              if \<not> pipeline_engine_enabled then
                (case prepare env params exec_state of (prepare_st, exec_state') \<Rightarrow>
                   if \<not> ok prepare_st then (prepare_st, m2)
                   else
                     let m3 = m2\<lparr>runtimefilter_entities :=
                                    runtimefilter_entities m2 @ [fragment_instance_id],
                                  fragment_map :=
                                    umap_insert (fragment_map m2) fragment_instance_id exec_state'\<rparr>
                     in if \<not> ok (thread_pool_submit env) then
                          (case cancel INTERNAL_ERROR ''push plan fragment to thread pool failed''
                                  (exec_state', load_stream_mgr m3) of
                             (_, _, mgr') \<Rightarrow>
                               (Err InternalError ''push plan fragment $0 to thread pool failed. err = $1, BE: $2'',
                                m3\<lparr>fragment_map := umap_erase (fragment_map m3) fragment_instance_id,
                                   load_stream_mgr := mgr'\<rparr>))
                        else (OK, m3\<lparr>thread_pool_tasks :=
                                       thread_pool_tasks m3 @ [fragment_instance_id]\<rparr>))
              else
                let m3 = (if \<not> wait then
                            m2\<lparr>fragments_ctx_map :=
                                 umap_update (fragments_ctx_map m2) qid
                                   (\<lambda>c. c\<lparr>ready_to_execute := True\<rparr>)\<rparr>
                          else m2);
                    context = \<lparr>pfc_query_id = qid, pfc_fragment_instance_id = fragment_instance_id,
                               pfc_backend_num = params_backend_num params,
                               pfc_cancelled = False, pfc_cancel_calls = []\<rparr>
                in if \<not> ok (pipeline_prepare env) then (pipeline_prepare env, m3)
                   else
                     (pipeline_submit env,
                      m3\<lparr>runtimefilter_entities :=
                            runtimefilter_entities m3 @ [fragment_instance_id],
                          pipeline_map := umap_insert (pipeline_map m3) fragment_instance_id context,
                          pipeline_tasks := pipeline_tasks m3 @ [fragment_instance_id]\<rparr>))"

text \<open>\<open>FragmentMgr::cancel\<close>: the legacy map first, then the pipeline map.\<close>

definition mgr_cancel ::
  "TUniqueId \<Rightarrow> PPlanFragmentCancelReason \<Rightarrow> string \<Rightarrow> FragmentMgr \<Rightarrow> FragmentMgr" where
  "mgr_cancel fragment_id reason msg m =
     (case umap_find (fragment_map m) fragment_id of
        Some exec_state \<Rightarrow>
          (case cancel reason msg (exec_state, load_stream_mgr m) of
             (_, exec_state', mgr') \<Rightarrow>
               m\<lparr>fragment_map := umap_update (fragment_map m) fragment_id (\<lambda>_. exec_state'),
                  load_stream_mgr := mgr'\<rparr>)
      | None \<Rightarrow>
          (case umap_find (pipeline_map m) fragment_id of
             Some ctx \<Rightarrow>
               m\<lparr>pipeline_map := umap_update (pipeline_map m) fragment_id (pfc_cancel reason msg)\<rparr>
           | None \<Rightarrow> m))"

text \<open>\<open>FragmentMgr::cancel_query\<close>.\<close>

definition cancel_query ::
  "TUniqueId \<Rightarrow> PPlanFragmentCancelReason \<Rightarrow> string \<Rightarrow> FragmentMgr \<Rightarrow> FragmentMgr" where
  "cancel_query qid reason msg m =
     (let cancel_fragment_ids = (case umap_find (fragments_ctx_map m) qid of
                                   None \<Rightarrow> []
                                 | Some ctx \<Rightarrow> fragment_ids ctx)
      in fold (\<lambda>it. mgr_cancel it reason msg) cancel_fragment_ids m)"

text \<open>
  The loop of \<open>FragmentMgr::query_is_canceled\<close> over the registered fragment ids: it
  returns from inside the loop at the first id found in either map.  The maps never hold
  a null pointer, so the second half of each test in the source is always true.
\<close>

fun first_registered_is_canceled :: "FragmentMgr \<Rightarrow> TUniqueId list \<Rightarrow> bool option" where
  "first_registered_is_canceled m [] = None"
| "first_registered_is_canceled m (it # its) =
     (case umap_find (fragment_map m) it of
        Some exec_state \<Rightarrow> Some (cancelled exec_state)
      | None \<Rightarrow>
          (case umap_find (pipeline_map m) it of
             Some ctx \<Rightarrow> Some (pfc_cancelled ctx)
           | None \<Rightarrow> first_registered_is_canceled m its))"

text \<open>\<open>FragmentMgr::query_is_canceled\<close>.\<close>

definition query_is_canceled :: "FragmentMgr \<Rightarrow> TUniqueId \<Rightarrow> bool" where
  "query_is_canceled m qid =
     (case umap_find (fragments_ctx_map m) qid of
        Some ctx \<Rightarrow>
          (case first_registered_is_canceled m (fragment_ids ctx) of
             Some b \<Rightarrow> b
           | None \<Rightarrow> True)
      | None \<Rightarrow> True)"

text \<open>
  Modelled from the spec: \<open>QueryFragmentsCtx::is_timeout\<close> is declared outside the
  sources; a context's timeout has elapsed under the same rule as a fragment's.
\<close>

definition ctx_is_timeout :: "QueryFragmentsCtx \<Rightarrow> int \<Rightarrow> bool" where
  "ctx_is_timeout c now =
     (if ctx_timeout_second c \<le> 0 then False
      else second_diff now (ctx_start_time c) > ctx_timeout_second c)"

text \<open>
  One round of the loop of \<open>FragmentMgr::cancel_worker\<close> at the time \<open>now\<close>: the ids
  collected in \<open>to_cancel\<close>, and the manager after the eviction of timed-out contexts and
  the cancellation of every collected id with reason \<open>TIMEOUT\<close>.
\<close>

definition to_cancel :: "FragmentMgr \<Rightarrow> int \<Rightarrow> TUniqueId list" where
  "to_cancel m now =
     map (\<lambda>it. fragment_instance_id (snd it)) (filter (\<lambda>it. is_timeout (snd it) now) (fragment_map m))"

definition cancel_worker_round :: "int \<Rightarrow> FragmentMgr \<Rightarrow> TUniqueId list \<times> FragmentMgr" where
  "cancel_worker_round now m =
     (let ids = to_cancel m now;
          m1 = m\<lparr>fragments_ctx_map :=
                   filter (\<lambda>it. \<not> ctx_is_timeout (snd it) now) (fragments_ctx_map m)\<rparr>
      in (ids, fold (\<lambda>id. mgr_cancel id TIMEOUT []) ids m1))"

section \<open>Status reporting (runtime/fragment\_mgr.cpp, \<open>FragmentMgr::coordinator_callback\<close>)\<close>

text \<open>
  The coordinator is reached over Thrift, outside the sources.  One call of
  \<open>reportExecStatus\<close> either returns with the coordinator's status \<open>res.status\<close>, or
  throws a \<open>TTransportException\<close>, or throws another \<open>TException\<close>.  The behaviour of
  the coordinator during one callback is given by: the status of opening the connection,
  the outcome of the first call, the status of \<open>reopen\<close>, and the outcome of a second
  call; \<open>print_status\<close> is the printed form of a status.
\<close>

datatype RpcOutcome =
  Returns Status | Throws_TTransportException string | Throws_TException string

record Coordinator =
  print_status :: "Status \<Rightarrow> string"
  coord_status :: Status
  first_report :: RpcOutcome
  reopen_status :: Status
  second_report :: RpcOutcome

text \<open>What the callback did on the connection, oldest first.\<close>

datatype RpcEvent = ReportExecStatus | Reopen

text \<open>
  \<open>req.cancel_fn\<close> is bound to \<open>PlanFragmentExecutor::cancel\<close> of the fragment's
  executor, \<open>req.update_fn\<close> to \<open>FragmentExecState::update_status\<close>.
\<close>

definition cancel_fn ::
  "PPlanFragmentCancelReason \<Rightarrow> string \<Rightarrow> FragmentExecState \<Rightarrow> FragmentExecState" where
  "cancel_fn reason msg s = s\<lparr>executor := executor_cancel reason msg (executor s)\<rparr>"

definition update_fn :: "Status \<Rightarrow> FragmentExecState \<Rightarrow> FragmentExecState" where
  "update_fn st s = snd (update_status st s)"

text \<open>The end of the callback: \<open>if (!rpc_status.ok())\<close> update and cancel.\<close>

definition report_finish ::
  "Status \<Rightarrow> RpcEvent list \<Rightarrow> FragmentExecState \<Rightarrow> FragmentExecState \<times> RpcEvent list" where
  "report_finish rpc_status events s =
     (if \<not> ok rpc_status
      then (cancel_fn INTERNAL_ERROR ''rpc fail 2'' (update_fn rpc_status s), events)
      else (s, events))"

text \<open>What the outer \<open>catch (TException& e)\<close> makes of an exception.\<close>

definition rpc_exception_status :: "string \<Rightarrow> string \<Rightarrow> Status" where
  "rpc_exception_status addr what =
     Err InternalError (''ReportExecStatus() to '' @ addr @ '' failed:'' @ [CHR 0x0A] @ what)"

text \<open>
  \<open>FragmentMgr::coordinator_callback\<close> for the request a \<open>FragmentExecState\<close> builds.
  The assembly of the Thrift parameters has no influence on the control flow and is left
  out.  The result is the fragment state and the calls made on the connection.
\<close>

definition coordinator_callback ::
  "Coordinator \<Rightarrow> string \<Rightarrow> Status \<Rightarrow> FragmentExecState \<Rightarrow> FragmentExecState \<times> RpcEvent list" where
  "coordinator_callback co addr req_status s =
     (let s1 = update_fn req_status s in
      if \<not> ok (coord_status co) then
        (update_fn (Err InternalError
             (''couldn'' @ [CHR 0x27] @ ''t get a client for '' @ addr @ '', reason: '' @
              print_status co (coord_status co))) s1, [])
      else
        (case first_report co of
           Returns res_status \<Rightarrow> report_finish res_status [ReportExecStatus] s1
         | Throws_TException what \<Rightarrow>
             report_finish (rpc_exception_status addr what) [ReportExecStatus] s1
         | Throws_TTransportException what \<Rightarrow>
             (let rpc_status = reopen_status co in
              if \<not> ok rpc_status then
                (cancel_fn INTERNAL_ERROR ''report rpc fail'' (update_fn rpc_status s1),
                 [ReportExecStatus, Reopen])
              else
                (case second_report co of
                   Returns res_status \<Rightarrow>
                     report_finish res_status [ReportExecStatus, Reopen, ReportExecStatus] s1
                 | Throws_TException what2 \<Rightarrow>
                     report_finish (rpc_exception_status addr what2)
                       [ReportExecStatus, Reopen, ReportExecStatus] s1
                 | Throws_TTransportException what2 \<Rightarrow>
                     report_finish (rpc_exception_status addr what2)
                       [ReportExecStatus, Reopen, ReportExecStatus] s1))))"

section \<open>CSV reader (vec/exec/format/csv/csv\_reader.cpp, \<open>CsvReader::init_reader\<close>)\<close>

text \<open>
  The Thrift enums are declared outside the sources; the values that the reader names are
  constructors of their own.
\<close>

datatype TFileFormatType =
  FORMAT_CSV_PLAIN | FORMAT_CSV_GZ | FORMAT_CSV_BZ2 | FORMAT_CSV_LZ4FRAME | FORMAT_CSV_LZOP
  | FORMAT_CSV_DEFLATE | FORMAT_PROTO | FORMAT_OTHER nat

datatype TFileCompressType = UNKNOWN | PLAIN | GZ | LZO | BZ2 | LZ4FRAME | DEFLATE | COMPRESS_OTHER nat

datatype TFileType = FILE_STREAM | FILE_BROKER | FILE_OTHER nat

datatype CompressType = UNCOMPRESSED | GZIP | LZOP | BZIP2 | C_LZ4FRAME | C_DEFLATE

datatype LineReader = NewPlainTextLineReader "64 word" "64 word" | NewPlainBinaryLineReader

text \<open>The scan-range parameters and the reader's members that \<open>init_reader\<close> touches.\<close>

record CsvReader =
  range_start_offset :: "64 word"
  range_path :: string
  file_format_type :: TFileFormatType
  file_compress_type :: TFileCompressType
  file_type :: TFileType
  isset_file_attributes :: bool
  header_type :: "string option"
  attr_skip_lines :: "int option"
  trim_double_quotes_attr :: "bool option"
  column_idxs :: "int list"
  required_slots :: "bool list"
  file_slot_descs :: nat
  csv_size :: "64 word"
  skip_lines :: int
  description_start_offset :: "64 word"
  trim_double_quotes :: bool
  decompressor :: "CompressType option"
  line_reader :: "LineReader option"
  is_load_task :: bool
  col_idxs :: "int list"
  file_slot_idx_map :: "int list"
  line_reader_eof :: bool

text \<open>
  What \<open>init_reader\<close> obtains from outside: the two header-type constants of
  \<open>BeConsts\<close>, the result of opening the file, the size of the opened file and the
  result of creating the decompressor.
\<close>

record CsvEnv =
  CSV_WITH_NAMES :: string
  CSV_WITH_NAMES_AND_TYPES :: string
  create_file_reader :: Status
  file_reader_size :: nat
  create_decompressor_st :: Status

definition to_lower :: "string \<Rightarrow> string" where
  "to_lower s =
     map (\<lambda>c. if (65::nat) \<le> of_char c \<and> of_char c \<le> (90::nat)
               then char_of (of_char c + (32::nat)) else c) s"

text \<open>\<open>CsvReader::_create_decompressor\<close>: the choice of the compression type.\<close>

definition create_decompressor :: "CsvEnv \<Rightarrow> CsvReader \<Rightarrow> Status \<times> CsvReader" where
  "create_decompressor env r =
     (let choice =
        (if file_compress_type r \<noteq> UNKNOWN then
           (case file_compress_type r of
              PLAIN \<Rightarrow> Inr UNCOMPRESSED
            | GZ \<Rightarrow> Inr GZIP
            | LZO \<Rightarrow> Inr LZOP
            | BZ2 \<Rightarrow> Inr BZIP2
            | LZ4FRAME \<Rightarrow> Inr C_LZ4FRAME
            | DEFLATE \<Rightarrow> Inr C_DEFLATE
            | _ \<Rightarrow> Inl (Err InternalError ''unknown compress type: {}''))
         else
           (case file_format_type r of
              FORMAT_PROTO \<Rightarrow> Inr UNCOMPRESSED
            | FORMAT_CSV_PLAIN \<Rightarrow> Inr UNCOMPRESSED
            | FORMAT_CSV_GZ \<Rightarrow> Inr GZIP
            | FORMAT_CSV_BZ2 \<Rightarrow> Inr BZIP2
            | FORMAT_CSV_LZ4FRAME \<Rightarrow> Inr C_LZ4FRAME
            | FORMAT_CSV_LZOP \<Rightarrow> Inr LZOP
            | FORMAT_CSV_DEFLATE \<Rightarrow> Inr C_DEFLATE
            | FORMAT_OTHER n \<Rightarrow> Inl (Err InternalError ''unknown format type: {}'')))
      in case choice of
           Inl err \<Rightarrow> (err, r)
         | Inr compress_type \<Rightarrow>
             if \<not> ok (create_decompressor_st env) then (create_decompressor_st env, r)
             else (OK, r\<lparr>decompressor := Some compress_type\<rparr>))"

text \<open>
  \<open>CsvReader::init_reader\<close> from the assignment of \<open>_file_description.start_offset\<close>
  on, with the local \<open>start_offset\<close> as it stands there.  Opening a pipe reader and
  opening a file reader are one collaborator result; the copies of the separators have no
  influence on the outcome and are left out.
\<close>

definition init_reader_open :: "CsvEnv \<Rightarrow> bool \<Rightarrow> 64 word \<Rightarrow> CsvReader \<Rightarrow> Status \<times> CsvReader" where
  "init_reader_open env is_load start_offset r0 =
     (let r1 = r0\<lparr>description_start_offset := start_offset\<rparr> in
      if \<not> ok (create_file_reader env) then (create_file_reader env, r1)
      else if file_reader_size env = 0 \<and> file_type r1 \<noteq> FILE_STREAM \<and> file_type r1 \<noteq> FILE_BROKER
      then (Err EndOfFile (''init reader failed, empty csv file: '' @ range_path r1), r1)
      else
        let r2 = (case trim_double_quotes_attr r1 of
                    None \<Rightarrow> r1 | Some b \<Rightarrow> r1\<lparr>trim_double_quotes := b\<rparr>)
        in case create_decompressor env r2 of (dst, r3) \<Rightarrow>
          if \<not> ok dst then (dst, r3)
          else
            (case (case file_format_type r3 of
                     FORMAT_PROTO \<Rightarrow> Inr NewPlainBinaryLineReader
                   | FORMAT_OTHER n \<Rightarrow>
                       Inl (Err InternalError
                              ''Unknown format type, cannot init line reader in csv reader, type={}'')
                   | _ \<Rightarrow> Inr (NewPlainTextLineReader (csv_size r3) start_offset)) of
               Inl err \<Rightarrow> (err, r3)
             | Inr lr \<Rightarrow>
                 let r4 = r3\<lparr>line_reader := Some lr, is_load_task := is_load\<rparr>;
                     r5 = (if \<not> is_load then
                             r4\<lparr>col_idxs := column_idxs r4,
                                file_slot_idx_map :=
                                  file_slot_idx_map r4 @
                                  map (\<lambda>p. int (snd p))
                                    (filter fst (zip (required_slots r4)
                                                     [0 ..< length (required_slots r4)]))\<rparr>
                           else
                             r4\<lparr>col_idxs := col_idxs r4 @ map int [0 ..< file_slot_descs r4]\<rparr>)
                 in (OK, r5\<lparr>line_reader_eof := False\<rparr>)))"

text \<open>\<open>CsvReader::init_reader\<close>.\<close>

definition init_reader :: "CsvEnv \<Rightarrow> bool \<Rightarrow> CsvReader \<Rightarrow> Status \<times> CsvReader" where
  "init_reader env is_load r =
     (let start_offset = range_start_offset r in
      if start_offset = 0 then
        (let by_attr = (case attr_skip_lines r of None \<Rightarrow> r | Some n \<Rightarrow> r\<lparr>skip_lines := n\<rparr>);
             r1 =
               (case header_type r of
                  None \<Rightarrow> by_attr
                | Some h \<Rightarrow>
                    if isset_file_attributes r \<and> length h > 0 then
                      (let ht = to_lower h in
                       if ht = CSV_WITH_NAMES env then r\<lparr>skip_lines := 1\<rparr>
                       else if ht = CSV_WITH_NAMES_AND_TYPES env then r\<lparr>skip_lines := 2\<rparr>
                       else r)
                    else by_attr)
         in init_reader_open env is_load start_offset r1)
      else
        if file_format_type r \<noteq> FORMAT_CSV_PLAIN \<or>
           (file_compress_type r \<noteq> UNKNOWN \<and> file_compress_type r \<noteq> PLAIN)
        then (Err InternalError ''For now we do not support split compressed file'', r)
        else init_reader_open env is_load (start_offset - 1)
               (r\<lparr>csv_size := csv_size r + 1, skip_lines := 1\<rparr>))"

section \<open>Parquet reader (vec/exec/format/parquet/vparquet\_reader.cpp)\<close>

text \<open>
  A \<open>RowRange\<close> is the half-open range of rows from \<open>first_row\<close> up to \<open>last_row\<close>.
  Row numbers are 64-bit in the source and are integers here; the two conversions the code
  performs are written out: \<open>to_int32\<close> for an assignment to an \<open>int\<close>, \<open>to_int64\<close>
  for 64-bit arithmetic.
\<close>

record RowRange =
  first_row :: int
  last_row :: int

definition to_int32 :: "int \<Rightarrow> int" where
  "to_int32 x = signed_take_bit 31 x"

definition to_int64 :: "int \<Rightarrow> int" where
  "to_int64 x = signed_take_bit 63 x"

text \<open>
  What the page index of one row group holds for one column to read: whether the column
  has a predicate range, where its column index lies, the results of parsing the two
  indexes, the number of pages, the pages found skippable by
  \<open>collect_skipped_page_range\<close>, and the row range \<open>create_skipped_row_range\<close> yields
  for a page.  These helpers belong to \<open>PageIndex\<close>, outside the sources.
\<close>

record ParquetReadColumn =
  file_slot_name :: string
  column_index_offset :: int
  column_index_length :: int
  parse_column_index :: Status
  num_of_pages :: int
  skipped_page_range :: "int list"
  parse_offset_index :: Status
  create_skipped_row_range :: "int \<Rightarrow> RowRange"

record RowGroup =
  num_rows :: int
  has_page_index :: bool
  read_column_index :: Status
  read_offset_index :: Status
  columns :: "ParquetReadColumn list"

text \<open>The members of the reader that \<open>_process_page_index\<close> consults.\<close>

record PageIndexCtx =
  has_complex_type :: bool
  vconjunct_ctx_is_null :: bool
  colname_to_value_range :: "string list option"

text \<open>The loop over \<open>_read_columns\<close> that gathers \<open>skipped_row_ranges\<close>.\<close>

fun collect_skipped_row_ranges ::
  "string list \<Rightarrow> ParquetReadColumn list \<Rightarrow> RowRange list \<Rightarrow> Status + RowRange list" where
  "collect_skipped_row_ranges names [] skipped = Inr skipped"
| "collect_skipped_row_ranges names (read_col # cols) skipped =
     (if file_slot_name read_col \<notin> set names then collect_skipped_row_ranges names cols skipped
      else if column_index_offset read_col = 0 \<and> column_index_length read_col = 0
      then collect_skipped_row_ranges names cols skipped
      else if \<not> ok (parse_column_index read_col) then Inl (parse_column_index read_col)
      else if num_of_pages read_col \<le> 0 then collect_skipped_row_ranges names cols skipped
      else if skipped_page_range read_col = [] then collect_skipped_row_ranges names cols skipped
      else if \<not> ok (parse_offset_index read_col) then Inl (parse_offset_index read_col)
      else collect_skipped_row_ranges names cols
             (skipped @ map (create_skipped_row_range read_col) (skipped_page_range read_col)))"

text \<open>
  The sweep over the sorted skipped ranges.  The state is \<open>skip_end\<close> (an \<open>int\<close>), the
  candidate ranges emitted so far and \<open>read_rows\<close> (an \<open>int64_t\<close>).
\<close>

fun skip_sweep :: "RowRange list \<Rightarrow> int \<times> RowRange list \<times> int \<Rightarrow> int \<times> RowRange list \<times> int" where
  "skip_sweep [] st = st"
| "skip_sweep (skip_range # rest) (skip_end, candidate_row_ranges, read_rows) =
     (if skip_end \<ge> first_row skip_range then
        (if skip_end < last_row skip_range
         then skip_sweep rest (to_int32 (last_row skip_range), candidate_row_ranges, read_rows)
         else skip_sweep rest (skip_end, candidate_row_ranges, read_rows))
      else
        skip_sweep rest
          (to_int32 (last_row skip_range),
           candidate_row_ranges @ [\<lparr>first_row = skip_end, last_row = first_row skip_range\<rparr>],
           to_int64 (read_rows + (first_row skip_range - skip_end))))"

text \<open>
  The result of \<open>_process_page_index\<close>: the candidate ranges and the two statistics it
  adds to (\<open>read_rows\<close>, \<open>filtered_page_rows\<close>).
\<close>

record PageIndexResult =
  candidate_row_ranges :: "RowRange list"
  stat_read_rows :: int
  stat_filtered_page_rows :: int

definition read_whole_row_group :: "int \<Rightarrow> PageIndexResult" where
  "read_whole_row_group n =
     \<lparr>candidate_row_ranges = [\<lparr>first_row = 0, last_row = n\<rparr>],
      stat_read_rows = n, stat_filtered_page_rows = 0\<rparr>"

text \<open>
  The part of \<open>_process_page_index\<close> after the loop over the columns: from the test
  \<open>skipped_row_ranges.empty()\<close> to the end.
\<close>

definition candidates_from_skipped :: "int \<Rightarrow> RowRange list \<Rightarrow> PageIndexResult" where
  "candidates_from_skipped n skipped_row_ranges =
     (if skipped_row_ranges = [] then read_whole_row_group n
      else
        let sorted_ranges = sort_key (\<lambda>r. (first_row r, last_row r)) skipped_row_ranges in
        case skip_sweep sorted_ranges (0, [], 0) of
          (skip_end, cands, read_rows) \<Rightarrow>
            if skip_end \<noteq> n then
              \<lparr>candidate_row_ranges = cands @ [\<lparr>first_row = skip_end, last_row = n\<rparr>],
               stat_read_rows = to_int64 (read_rows + (n - skip_end)),
               stat_filtered_page_rows = to_int64 (n - to_int64 (read_rows + (n - skip_end)))\<rparr>
            else
              \<lparr>candidate_row_ranges = cands,
               stat_read_rows = read_rows,
               stat_filtered_page_rows = to_int64 (n - read_rows)\<rparr>)"

text \<open>
  The skipped row ranges that \<open>_process_page_index\<close> works with: none when it decides
  to read the whole group, otherwise what the loop over the columns gathers.
\<close>

definition skipped_row_ranges_of :: "PageIndexCtx \<Rightarrow> RowGroup \<Rightarrow> Status + RowRange list" where
  "skipped_row_ranges_of rd row_group =
     (if has_complex_type rd \<or> vconjunct_ctx_is_null rd \<or>
         (case colname_to_value_range rd of None \<Rightarrow> True | Some names \<Rightarrow> names = [])
      then Inr []
      else if \<not> has_page_index row_group then Inr []
      else if \<not> ok (read_column_index row_group) then Inl (read_column_index row_group)
      else if \<not> ok (read_offset_index row_group) then Inl (read_offset_index row_group)
      else collect_skipped_row_ranges
             (case colname_to_value_range rd of None \<Rightarrow> [] | Some names \<Rightarrow> names)
             (columns row_group) [])"

text \<open>\<open>ParquetReader::_process_page_index\<close>.\<close>

definition process_page_index :: "PageIndexCtx \<Rightarrow> RowGroup \<Rightarrow> Status + PageIndexResult" where
  "process_page_index rd row_group =
     (if has_complex_type rd \<or> vconjunct_ctx_is_null rd \<or>
         (case colname_to_value_range rd of None \<Rightarrow> True | Some names \<Rightarrow> names = [])
      then Inr (read_whole_row_group (num_rows row_group))
      else if \<not> has_page_index row_group then Inr (read_whole_row_group (num_rows row_group))
      else if \<not> ok (read_column_index row_group) then Inl (read_column_index row_group)
      else if \<not> ok (read_offset_index row_group) then Inl (read_offset_index row_group)
      else
        (case collect_skipped_row_ranges
                (case colname_to_value_range rd of None \<Rightarrow> [] | Some names \<Rightarrow> names)
                (columns row_group) [] of
           Inl err \<Rightarrow> Inl err
         | Inr skipped_row_ranges \<Rightarrow>
             Inr (candidates_from_skipped (num_rows row_group) skipped_row_ranges)))"

text \<open>The rows that a list of ranges covers.\<close>

definition rows_of :: "RowRange list \<Rightarrow> int set" where
  "rows_of rs = (\<Union>r \<in> set rs. {first_row r ..< last_row r})"

text \<open>
  Well-formed ranges in ascending order, every range ending before any later one starts:
  no two of them overlap.
\<close>

definition ascending_disjoint :: "RowRange list \<Rightarrow> bool" where
  "ascending_disjoint rs =
     (list_all (\<lambda>r. first_row r \<le> last_row r) rs \<and>
      sorted_wrt (\<lambda>a b. last_row a \<le> first_row b) rs)"

text \<open>
  The row-group reader (\<open>RowGroupReader\<close>, outside the sources): the model keeps the row
  group it was built for and the candidate ranges handed to \<open>init\<close>.
\<close>

record RowGroupReader =
  reader_row_group_id :: nat
  reader_candidate_row_ranges :: "RowRange list"

text \<open>An entry of \<open>_read_row_groups\<close> together with the metadata of its row group.\<close>

record RowGroupIndex =
  row_group_id :: nat
  index_first_row :: int
  index_last_row :: int
  row_group :: RowGroup

record ParquetReader =
  page_index_ctx :: PageIndexCtx
  current_group_reader :: "RowGroupReader option"
  row_group_eof :: bool
  read_row_groups :: "RowGroupIndex list"
  stat_lazy_read_filtered_rows :: int
  stat_total_read_rows :: int
  stat_total_filtered_page_rows :: int
  merged_column_statistics :: "nat list"

text \<open>
  What one call of \<open>get_next_block\<close> obtains from the row-group reader: the status of
  \<open>init\<close> for a reader built during the call, and the status, row count and end flag that
  \<open>next_batch\<close> delivers, and the reader's count of rows filtered by lazy read.
\<close>

record BatchOracle =
  reader_init :: Status
  batch_st :: Status
  batch_read_rows :: nat
  batch_row_group_eof :: bool
  batch_st_text :: string
  lazy_read_filtered_rows :: int

text \<open>
  \<open>ParquetReader::_next_row_group_reader\<close>.  The position-delete context is handed to
  the row-group reader and plays no part in what follows; it is left out.
\<close>

definition next_row_group_reader :: "BatchOracle \<Rightarrow> ParquetReader \<Rightarrow> Status \<times> ParquetReader" where
  "next_row_group_reader orc rd =
     (case read_row_groups rd of
        [] \<Rightarrow> (Err EndOfFile ''No next RowGroupReader'',
               rd\<lparr>row_group_eof := True, current_group_reader := None\<rparr>)
      | row_group_index # rest \<Rightarrow>
          (let rd1 = rd\<lparr>read_row_groups := rest\<rparr> in
           case process_page_index (page_index_ctx rd1) (row_group row_group_index) of
             Inl err \<Rightarrow> (err, rd1)
           | Inr res \<Rightarrow>
               (reader_init orc,
                rd1\<lparr>current_group_reader :=
                       Some \<lparr>reader_row_group_id = row_group_id row_group_index,
                             reader_candidate_row_ranges = candidate_row_ranges res\<rparr>,
                     row_group_eof := False,
                     stat_total_read_rows := stat_total_read_rows rd1 + stat_read_rows res,
                     stat_total_filtered_page_rows :=
                       stat_total_filtered_page_rows rd1 + stat_filtered_page_rows res\<rparr>)))"

text \<open>
  The result of \<open>get_next_block\<close>: the status and the two output parameters, each
  \<open>None\<close> when the call has not written it.
\<close>

record BlockResult =
  result_status :: Status
  read_rows :: "nat option"
  eof :: "bool option"

text \<open>The part of \<open>get_next_block\<close> after the first \<open>if\<close>, with a reader in place.\<close>

definition read_batch :: "BatchOracle \<Rightarrow> ParquetReader \<Rightarrow> BlockResult \<times> ParquetReader" where
  "read_batch orc rd =
     (let rd1 = rd\<lparr>row_group_eof := batch_row_group_eof orc\<rparr> in
      if \<not> ok (batch_st orc) then
        (\<lparr>result_status = Err InternalError
             (''Read parquet file {} failed, reason = {}'' @ batch_st_text orc),
          read_rows = Some (batch_read_rows orc), eof = None\<rparr>, rd1)
      else if row_group_eof rd1 then
        (\<lparr>result_status = OK, read_rows = Some (batch_read_rows orc),
          eof = Some (read_row_groups rd1 = [])\<rparr>,
         rd1\<lparr>merged_column_statistics :=
                merged_column_statistics rd1 @
                (case current_group_reader rd1 of None \<Rightarrow> [] | Some g \<Rightarrow> [reader_row_group_id g]),
              stat_lazy_read_filtered_rows :=
                stat_lazy_read_filtered_rows rd1 + lazy_read_filtered_rows orc\<rparr>)
      else
        (\<lparr>result_status = OK, read_rows = Some (batch_read_rows orc), eof = None\<rparr>, rd1))"

text \<open>\<open>ParquetReader::get_next_block\<close>.\<close>

definition get_next_block :: "BatchOracle \<Rightarrow> ParquetReader \<Rightarrow> BlockResult \<times> ParquetReader" where
  "get_next_block orc rd =
     (if current_group_reader rd = None \<or> row_group_eof rd then
        (if length (read_row_groups rd) > 0 then
           (case next_row_group_reader orc rd of (st, rd1) \<Rightarrow>
              if \<not> ok st then (\<lparr>result_status = st, read_rows = None, eof = None\<rparr>, rd1)
              else read_batch orc rd1)
         else
           (\<lparr>result_status = OK, read_rows = Some 0, eof = Some True\<rparr>,
            rd\<lparr>current_group_reader := None, row_group_eof := True\<rparr>))
      else read_batch orc rd)"

text \<open>A sequence of \<open>get_next_block\<close> calls: the results in order and the final reader.\<close>

fun get_next_block_seq ::
  "BatchOracle list \<Rightarrow> ParquetReader \<Rightarrow> BlockResult list \<times> ParquetReader" where
  "get_next_block_seq [] rd = ([], rd)"
| "get_next_block_seq (orc # orcs) rd =
     (case get_next_block orc rd of (res, rd1) \<Rightarrow>
        (case get_next_block_seq orcs rd1 of (ress, rd2) \<Rightarrow> (res # ress, rd2)))"

text \<open>A fragment state as the constructor leaves it, used to run the model on examples.\<close>

definition fresh_exec_state :: FragmentExecState where
  "fresh_exec_state =
     \<lparr>query_id = TUniqueId 1 2, fragment_instance_id = TUniqueId 1 3, backend_num = 0,
      executor = \<lparr>is_report_on_cancel = True, cancel_calls = []\<rparr>,
      start_time = 100, exec_status = OK, timeout_second = - 1, cancelled = False,
      need_wait_execution_trigger = False\<rparr>"

text \<open>An empty manager, an environment in which every collaborator succeeds, and a request.\<close>

definition empty_mgr :: FragmentMgr where
  "empty_mgr = \<lparr>fragment_map = [], pipeline_map = [], fragments_ctx_map = [],
      thread_pool_tasks = [], pipeline_tasks = [], runtimefilter_entities = [],
      load_stream_mgr = Map.empty\<rparr>"

definition ok_env :: ExecEnv where
  "ok_env = \<lparr>local_time = 100, process_mem_limit = 4294967296,
      pipeline_short_query_timeout_s = 20, desc_tbl_create = OK, executor_prepare = OK,
      thread_pool_submit = OK, pipeline_prepare = OK, pipeline_submit = OK\<rparr>"

definition request :: "TUniqueId \<Rightarrow> TUniqueId \<Rightarrow> bool \<Rightarrow> TExecPlanFragmentParams" where
  "request qid iid simplified =
     \<lparr>params_fragment_instance_id = iid, params_query_id = qid,
      is_simplified_param = simplified, fragment_num_on_host = 2, coord = ''fe:9020'',
      resource_info = None, isset_query_options = True,
      query_options = \<lparr>mem_limit = Some 10737418240, query_type = SELECT,
                        execution_timeout = 300, enable_pipeline_engine = None,
                        is_report_success = None, cpu_limit = None\<rparr>,
      params_backend_num = 0, params_need_wait_execution_trigger = None\<rparr>"

text \<open>The manager after the first fragment instance of query \<open>(7, 0)\<close> was accepted.\<close>

definition one_fragment_mgr :: FragmentMgr where
  "one_fragment_mgr =
     snd (exec_plan_fragment ok_env (request (TUniqueId 7 0) (TUniqueId 7 1) False) empty_mgr)"

text \<open>
  The manager after a second instance of the same query was accepted and then cancelled
  on its own through \<open>FragmentMgr::cancel\<close>.
\<close>

definition two_fragments_mgr :: FragmentMgr where
  "two_fragments_mgr =
     mgr_cancel (TUniqueId 7 2) USER_CANCEL []
       (snd (exec_plan_fragment ok_env (request (TUniqueId 7 0) (TUniqueId 7 2) True)
          one_fragment_mgr))"

text \<open>
  The manager after a request whose executor preparation failed: the context is
  registered and lists the instance, the instance is in no map.
\<close>

definition failed_prepare_mgr :: FragmentMgr where
  "failed_prepare_mgr =
     snd (exec_plan_fragment (ok_env\<lparr>executor_prepare := Err InternalError ''prepare''\<rparr>)
            (request (TUniqueId 8 0) (TUniqueId 8 1) False) empty_mgr)"

text \<open>A coordinator whose first report fails in the transport and whose retry succeeds.\<close>

definition flaky_coordinator :: Coordinator where
  "flaky_coordinator =
     \<lparr>print_status = (\<lambda>st. []), coord_status = OK,
      first_report = Throws_TTransportException ''broken pipe'',
      reopen_status = OK, second_report = Returns OK\<rparr>"

text \<open>A compressed CSV split that does not start at the beginning of the file.\<close>

definition gz_split_reader :: CsvReader where
  "gz_split_reader =
     \<lparr>range_start_offset = 4096, range_path = ''data.csv.gz'',
      file_format_type = FORMAT_CSV_GZ, file_compress_type = UNKNOWN, file_type = FILE_OTHER 0,
      isset_file_attributes = False, header_type = None, attr_skip_lines = None,
      trim_double_quotes_attr = None, column_idxs = [], required_slots = [],
      file_slot_descs = 0, csv_size = 4096, skip_lines = 0, description_start_offset = 4096,
      trim_double_quotes = False, decompressor = None, line_reader = None,
      is_load_task = False, col_idxs = [], file_slot_idx_map = [], line_reader_eof = False\<rparr>"

definition csv_env :: CsvEnv where
  "csv_env = \<lparr>CSV_WITH_NAMES = ''csv_with_names'',
      CSV_WITH_NAMES_AND_TYPES = ''csv_with_names_and_types'',
      create_file_reader = OK, file_reader_size = 100, create_decompressor_st = OK\<rparr>"

text \<open>
  A reader in the middle of its last row group: a current row-group reader that is not
  exhausted, and an empty queue; and a \<open>next_batch\<close> that delivers the last five rows.
\<close>

definition last_group_reader :: ParquetReader where
  "last_group_reader =
     \<lparr>page_index_ctx = \<lparr>has_complex_type = False, vconjunct_ctx_is_null = True,
                        colname_to_value_range = None\<rparr>,
      current_group_reader = Some \<lparr>reader_row_group_id = 0,
                                   reader_candidate_row_ranges =
                                     [\<lparr>first_row = 0, last_row = 100\<rparr>]\<rparr>,
      row_group_eof = False, read_row_groups = [],
      stat_lazy_read_filtered_rows = 0, stat_total_read_rows = 100,
      stat_total_filtered_page_rows = 0, merged_column_statistics = []\<rparr>"

definition last_batch :: BatchOracle where
  "last_batch = \<lparr>reader_init = OK, batch_st = OK, batch_read_rows = 5,
      batch_row_group_eof = True, batch_st_text = [], lazy_read_filtered_rows = 0\<rparr>"

definition eof_result :: BlockResult where
  "eof_result = \<lparr>result_status = OK, read_rows = Some 0, eof = Some True\<rparr>"

text \<open>
  A reader with a predicate on column \<open>k1\<close>, and a row group of three thousand million
  rows whose page index lets the first page of \<open>k1\<close>, rows 0 to 2200000000, be skipped.
\<close>

definition pruning_ctx :: PageIndexCtx where
  "pruning_ctx = \<lparr>has_complex_type = False, vconjunct_ctx_is_null = False,
      colname_to_value_range = Some [''k1'']\<rparr>"

definition huge_row_group :: RowGroup where
  "huge_row_group =
     \<lparr>num_rows = 3000000000, has_page_index = True, read_column_index = OK,
      read_offset_index = OK,
      columns = [\<lparr>file_slot_name = ''k1'', column_index_offset = 4, column_index_length = 16,
                  parse_column_index = OK, num_of_pages = 2, skipped_page_range = [0],
                  parse_offset_index = OK,
                  create_skipped_row_range =
                    (\<lambda>page_id. \<lparr>first_row = 0, last_row = 2200000000\<rparr>)\<rparr>]\<rparr>"

section \<open>Sticky status\<close>

lemma update_status_returns_stored:
  "fst (update_status st s) = exec_status (snd (update_status st s))"
  by (simp add: update_status_def Let_def)

lemma update_status_failed_keeps:
  "\<not> ok (exec_status s) \<Longrightarrow> snd (update_status st s) = s"
  by (simp add: update_status_def Let_def)

lemma update_status_seq_failed_keeps:
  "\<not> ok (exec_status s) \<Longrightarrow> update_status_seq sts s = s"
  by (induction sts arbitrary: s) (simp_all add: update_status_failed_keeps)

lemma update_status_seq_first_failure:
  "ok (exec_status s) \<Longrightarrow>
   exec_status (update_status_seq sts s) =
     (case find (\<lambda>st. \<not> ok st) sts of None \<Rightarrow> exec_status s | Some e \<Rightarrow> e)"
proof (induction sts arbitrary: s)
  case Nil
  then show ?case by simp
next
  case (Cons st sts)
  show ?case
  proof (cases "ok st")
    case True
    then have "snd (update_status st s) = s"
      by (simp add: update_status_def Let_def)
    with Cons True show ?thesis by simp
  next
    case False
    with Cons.prems have step: "snd (update_status st s) = s\<lparr>exec_status := st\<rparr>"
      by (simp add: update_status_def Let_def)
    have "\<not> ok (exec_status (s\<lparr>exec_status := st\<rparr>))"
      using False by simp
    then have "update_status_seq sts (s\<lparr>exec_status := st\<rparr>) = s\<lparr>exec_status := st\<rparr>"
      by (rule update_status_seq_failed_keeps)
    with step False show ?thesis by simp
  qed
qed

text \<open>
  C4.  The execution status of a fragment is sticky on the first failure: once the stored
  status is not OK, no sequence of later \<open>update_status\<close> calls changes the state; a call
  changes the stored status only when the stored status is OK and the new one is not, and
  then the new one is stored; started from OK, a sequence of calls leaves the first non-OK
  status of the sequence (or OK when there is none); and every call returns the status
  that is stored after it.
\<close>

theorem update_status_sticky:
  "(\<not> ok (exec_status s) \<longrightarrow> update_status_seq sts s = s) \<and>
   (exec_status (snd (update_status st s)) \<noteq> exec_status s \<longrightarrow>
      ok (exec_status s) \<and> \<not> ok st \<and> exec_status (snd (update_status st s)) = st) \<and>
   (ok (exec_status s) \<longrightarrow>
      exec_status (update_status_seq sts s) =
        (case find (\<lambda>st. \<not> ok st) sts of None \<Rightarrow> exec_status s | Some e \<Rightarrow> e)) \<and>
   fst (update_status st s) = exec_status (snd (update_status st s))"
proof (intro conjI impI)
  assume "\<not> ok (exec_status s)"
  then show "update_status_seq sts s = s" by (rule update_status_seq_failed_keeps)
next
  assume ch: "exec_status (snd (update_status st s)) \<noteq> exec_status s"
  then show "ok (exec_status s)"
    by (auto simp: update_status_def Let_def split: if_splits)
  from ch show "\<not> ok st"
    by (auto simp: update_status_def Let_def split: if_splits)
  from ch show "exec_status (snd (update_status st s)) = st"
    by (auto simp: update_status_def Let_def split: if_splits)
next
  assume "ok (exec_status s)"
  then show "exec_status (update_status_seq sts s) =
      (case find (\<lambda>st. \<not> ok st) sts of None \<Rightarrow> exec_status s | Some e \<Rightarrow> e)"
    by (rule update_status_seq_first_failure)
next
  show "fst (update_status st s) = exec_status (snd (update_status st s))"
    by (rule update_status_returns_stored)
qed

theorem update_status_sticky_witness:
  "update_status_seq [Err Cancelled ''late'', OK]
       (fresh_exec_state\<lparr>exec_status := Err InternalError ''first''\<rparr>) =
     fresh_exec_state\<lparr>exec_status := Err InternalError ''first''\<rparr> \<and>
   exec_status (update_status_seq [OK, Err InternalError ''first'', Err Cancelled ''late'']
       fresh_exec_state) = Err InternalError ''first'' \<and>
   fst (update_status (Err InternalError ''first'') fresh_exec_state) = Err InternalError ''first''"
  using update_status_sticky [of "fresh_exec_state\<lparr>exec_status := Err InternalError ''first''\<rparr>"
      "[Err Cancelled ''late'', OK]" OK]
    update_status_sticky [of fresh_exec_state
      "[OK, Err InternalError ''first'', Err Cancelled ''late'']" "Err InternalError ''first''"]
  by (simp add: ok_def fresh_exec_state_def update_status_def)

section \<open>Cancellation of a fragment instance\<close>

lemma cancel_sets_flag: "cancelled (fst (snd (cancel reason msg w)))"
  by (cases w) (simp add: cancel_def Let_def)

lemma cancel_when_cancelled:
  "cancelled (fst w) \<Longrightarrow> cancel reason msg w = (OK, w)"
  by (cases w) (simp add: cancel_def)

lemma cancel_seq_when_cancelled:
  "cancelled (fst w) \<Longrightarrow> cancel_seq cs w = w"
proof (induction cs arbitrary: w)
  case Nil
  then show ?case by simp
next
  case (Cons c cs)
  obtain reason msg where c: "c = (reason, msg)" by (cases c)
  from Cons.prems have "cancel reason msg w = (OK, w)" by (rule cancel_when_cancelled)
  with Cons c show ?case by simp
qed

lemma cancel_returns_OK: "fst (cancel reason msg w) = OK"
  by (cases w) (simp add: cancel_def Let_def)

text \<open>
  C6.  Cancellation is idempotent and monotonic.  After a first \<open>cancel\<close> the flag is set;
  a second \<open>cancel\<close>, with any reason and message, returns OK and leaves the fragment state
  and the stream-load pipes exactly as the first call left them; the same holds for any
  sequence of further calls, so the flag never reverts; and a \<open>cancel\<close> never clears a flag
  that is set.
\<close>

theorem cancel_idempotent:
  "cancelled (fst (snd (cancel r1 m1 w))) \<and>
   cancel r2 m2 (snd (cancel r1 m1 w)) = (OK, snd (cancel r1 m1 w)) \<and>
   cancel_seq cs (snd (cancel r1 m1 w)) = snd (cancel r1 m1 w) \<and>
   (cancelled (fst w) \<longrightarrow> cancelled (fst (cancel_seq cs w)))"
proof (intro conjI impI)
  show c1: "cancelled (fst (snd (cancel r1 m1 w)))" by (rule cancel_sets_flag)
  from c1 show "cancel r2 m2 (snd (cancel r1 m1 w)) = (OK, snd (cancel r1 m1 w))"
    by (rule cancel_when_cancelled)
  from c1 show "cancel_seq cs (snd (cancel r1 m1 w)) = snd (cancel r1 m1 w)"
    by (rule cancel_seq_when_cancelled)
next
  assume "cancelled (fst w)"
  then show "cancelled (fst (cancel_seq cs w))"
    by (simp add: cancel_seq_when_cancelled)
qed

theorem cancel_idempotent_witness:
  "cancel USER_CANCEL ''again'' (snd (cancel TIMEOUT [] (fresh_exec_state, Map.empty))) =
     (OK, fresh_exec_state\<lparr>executor := \<lparr>is_report_on_cancel = True,
                                          cancel_calls = [(TIMEOUT, [])]\<rparr>,
                            cancelled := True\<rparr>, Map.empty)"
  using cancel_idempotent [of TIMEOUT "[]" "(fresh_exec_state, Map.empty)" USER_CANCEL "''again''" "[]"]
  by (simp add: cancel_def executor_cancel_def fresh_exec_state_def)

section \<open>Duplicate submissions\<close>

text \<open>
  C1.  A submission whose instance id is already in the live-fragment map returns OK and
  leaves the manager as it was: the three registries, the query contexts in them, the
  worker pool, the pipeline scheduler, the runtime-filter controller and the stream-load
  manager are all unchanged, so no context was resolved, no fragment state registered and
  nothing executed.
\<close>

theorem exec_plan_fragment_duplicate:
  "umap_find (fragment_map m) (params_fragment_instance_id params) = Some exec_state \<Longrightarrow>
   exec_plan_fragment env params m = (OK, m)"
  by (simp add: exec_plan_fragment_def)

lemmas run_manager =
  exec_plan_fragment_def get_query_ctx_def new_query_ctx_def request_def ok_env_def empty_mgr_def
  umap_find_def umap_insert_def umap_update_def umap_erase_def query_bytes_limit_def prepare_def
  ok_def mgr_cancel_def cancel_def executor_cancel_def Let_def word_sless_alt

lemma one_fragment_mgr_has_instance:
  "umap_find (fragment_map one_fragment_mgr) (TUniqueId 7 1) =
     Some \<lparr>query_id = TUniqueId 7 0, fragment_instance_id = TUniqueId 7 1, backend_num = 0,
           executor = \<lparr>is_report_on_cancel = True, cancel_calls = []\<rparr>,
           start_time = 100, exec_status = OK, timeout_second = 300, cancelled = False,
           need_wait_execution_trigger = False\<rparr>"
  by (simp add: one_fragment_mgr_def run_manager)

theorem exec_plan_fragment_duplicate_witness:
  "exec_plan_fragment ok_env (request (TUniqueId 7 0) (TUniqueId 7 1) False) one_fragment_mgr =
     (OK, one_fragment_mgr)"
  using exec_plan_fragment_duplicate [of one_fragment_mgr
      "request (TUniqueId 7 0) (TUniqueId 7 1) False" _ ok_env]
    one_fragment_mgr_has_instance
  by (simp add: request_def)

section \<open>The timeout sweep\<close>

lemma umap_find_update:
  "umap_find (umap_update m k f) k' =
     (if k' = k then map_option f (umap_find m k) else umap_find m k')"
  by (induction m) (auto simp: umap_find_def umap_update_def)

lemma cancel_state_indep:
  "fst (snd (cancel reason msg (s, mgr))) = fst (snd (cancel reason msg (s, Map.empty)))"
  by (simp add: cancel_def Let_def split: option.splits)

lemma cancel_state_idem:
  "fst (snd (cancel r msg (fst (snd (cancel r msg (s, mgr))), mgr'))) =
   fst (snd (cancel r msg (s, mgr)))"
  by (simp add: cancel_def Let_def)

lemma mgr_cancel_find:
  "umap_find (fragment_map (mgr_cancel fid r msg m)) k =
     (if k = fid
      then map_option (\<lambda>s. fst (snd (cancel r msg (s, Map.empty)))) (umap_find (fragment_map m) k)
      else umap_find (fragment_map m) k)"
proof (cases "umap_find (fragment_map m) fid")
  case None
  then show ?thesis
    by (auto simp: mgr_cancel_def split: option.splits)
next
  case (Some es)
  obtain st es' mgr' where c: "cancel r msg (es, load_stream_mgr m) = (st, es', mgr')"
    by (cases "cancel r msg (es, load_stream_mgr m)")
  then have "es' = fst (snd (cancel r msg (es, Map.empty)))"
    using cancel_state_indep [of r msg es "load_stream_mgr m"] by simp
  with Some c show ?thesis
    by (simp add: mgr_cancel_def umap_find_update)
qed

lemma fold_mgr_cancel_find:
  "umap_find (fragment_map (fold (\<lambda>fid. mgr_cancel fid r msg) ids m)) k =
     (if k \<in> set ids
      then map_option (\<lambda>s. fst (snd (cancel r msg (s, Map.empty)))) (umap_find (fragment_map m) k)
      else umap_find (fragment_map m) k)"
proof (induction ids arbitrary: m)
  case Nil
  then show ?case by simp
next
  case (Cons a ids)
  show ?case
    by (simp add: Cons.IH mgr_cancel_find option.map_comp comp_def cancel_state_idem)
qed

lemma is_timeout_iff:
  "is_timeout s now \<longleftrightarrow> 0 < timeout_second s \<and> now > start_time s + timeout_second s"
  by (auto simp: is_timeout_def second_diff_def)

lemma to_cancel_iff:
  assumes "(k, fs) \<in> set (fragment_map m)"
    and "\<forall>it \<in> set (fragment_map m). fragment_instance_id (snd it) = fst it"
    and "distinct (map fst (fragment_map m))"
  shows "fragment_instance_id fs \<in> set (to_cancel m now) \<longleftrightarrow> is_timeout fs now"
proof
  assume "fragment_instance_id fs \<in> set (to_cancel m now)"
  then obtain it where it: "it \<in> set (fragment_map m)" "is_timeout (snd it) now"
    "fragment_instance_id (snd it) = fragment_instance_id fs"
    by (auto simp: to_cancel_def)
  with assms(1,2) have "fst it = k" by fastforce
  with it(1) assms(1,3) have "snd it = fs"
    by (metis eq_key_imp_eq_value prod.collapse)
  with it(2) show "is_timeout fs now" by simp
next
  assume "is_timeout fs now"
  with assms(1) show "fragment_instance_id fs \<in> set (to_cancel m now)"
    by (force simp: to_cancel_def)
qed

text \<open>
  C3.  Let a fragment instance with \<open>timeout_second = T\<close> and start time \<open>t0\<close> be
  registered in the live-fragment map (under its own instance id, keys being unique).  A
  round of the timeout sweep that observes the time \<open>now\<close> puts the instance on its
  cancel list exactly when \<open>T\<close> is positive and \<open>now > t0 + T\<close>; with \<open>T \<le> 0\<close> the
  instance is never judged timed out.  After the round the registered state is the one
  that \<open>cancel\<close> with reason \<open>TIMEOUT\<close> produces if the instance was selected, and the
  state as it was otherwise.
\<close>

theorem timeout_sweep_selects:
  assumes entry: "(k, fs) \<in> set (fragment_map m)"
    and keyed: "\<forall>it \<in> set (fragment_map m). fragment_instance_id (snd it) = fst it"
    and dist: "distinct (map fst (fragment_map m))"
  shows "(fragment_instance_id fs \<in> set (fst (cancel_worker_round now m)) \<longleftrightarrow>
            0 < timeout_second fs \<and> now > start_time fs + timeout_second fs) \<and>
         (timeout_second fs \<le> 0 \<longrightarrow> \<not> is_timeout fs now \<and>
            fragment_instance_id fs \<notin> set (fst (cancel_worker_round now m))) \<and>
         umap_find (fragment_map (snd (cancel_worker_round now m))) k =
           Some (if 0 < timeout_second fs \<and> now > start_time fs + timeout_second fs
                 then fst (snd (cancel TIMEOUT [] (fs, load_stream_mgr m))) else fs)"
proof -
  have sel: "fragment_instance_id fs \<in> set (to_cancel m now) \<longleftrightarrow>
      0 < timeout_second fs \<and> now > start_time fs + timeout_second fs"
    using to_cancel_iff [OF entry keyed dist] by (simp add: is_timeout_iff)
  have fst_round: "fst (cancel_worker_round now m) = to_cancel m now"
    by (simp add: cancel_worker_round_def Let_def)
  from entry keyed have kid: "fragment_instance_id fs = k" by fastforce
  from entry dist have found: "umap_find (fragment_map m) k = Some fs"
    by (simp add: umap_find_def)
  have "umap_find (fragment_map (snd (cancel_worker_round now m))) k =
      (if k \<in> set (to_cancel m now) then Some (fst (snd (cancel TIMEOUT [] (fs, Map.empty))))
       else Some fs)"
    by (simp add: cancel_worker_round_def Let_def fold_mgr_cancel_find found)
  then have third: "umap_find (fragment_map (snd (cancel_worker_round now m))) k =
      Some (if 0 < timeout_second fs \<and> now > start_time fs + timeout_second fs
            then fst (snd (cancel TIMEOUT [] (fs, load_stream_mgr m))) else fs)"
    using sel kid cancel_state_indep [of TIMEOUT "[]" fs "load_stream_mgr m"] by simp
  from sel fst_round third show ?thesis
    by (auto simp: is_timeout_iff)
qed

lemma one_fragment_mgr_map:
  "fragment_map one_fragment_mgr =
     [(TUniqueId 7 1,
       \<lparr>query_id = TUniqueId 7 0, fragment_instance_id = TUniqueId 7 1, backend_num = 0,
        executor = \<lparr>is_report_on_cancel = True, cancel_calls = []\<rparr>,
        start_time = 100, exec_status = OK, timeout_second = 300, cancelled = False,
        need_wait_execution_trigger = False\<rparr>)]"
  by (simp add: one_fragment_mgr_def run_manager)

theorem timeout_sweep_selects_witness:
  "TUniqueId 7 1 \<in> set (fst (cancel_worker_round 401 one_fragment_mgr)) \<and>
   TUniqueId 7 1 \<notin> set (fst (cancel_worker_round 400 one_fragment_mgr))"
  using timeout_sweep_selects [of "TUniqueId 7 1" _ one_fragment_mgr 401]
    timeout_sweep_selects [of "TUniqueId 7 1" _ one_fragment_mgr 400]
  by (simp add: one_fragment_mgr_map)

section \<open>Is a query cancelled?\<close>

lemma first_registered_find:
  "first_registered_is_canceled m ids =
     (case find (\<lambda>it. umap_find (fragment_map m) it \<noteq> None \<or>
                       umap_find (pipeline_map m) it \<noteq> None) ids of
        None \<Rightarrow> None
      | Some it \<Rightarrow>
          (case umap_find (fragment_map m) it of
             Some exec_state \<Rightarrow> Some (cancelled exec_state)
           | None \<Rightarrow> map_option pfc_cancelled (umap_find (pipeline_map m) it)))"
  by (induction ids) (auto split: option.splits)

text \<open>
  C5, as stated, fails.  In \<open>two_fragments_mgr\<close>, reached by accepting two instances of
  query \<open>(7, 0)\<close> and cancelling the second one, the query context is known and the
  registered instance \<open>(7, 2)\<close> reports cancelled, yet \<open>query_is_canceled\<close> is false:
  the loop returns the flag of the first registered instance it finds.  In
  \<open>failed_prepare_mgr\<close> the context is known and no instance reports cancelled (none is
  registered in a map), yet the answer is true.
\<close>

theorem query_is_canceled_counterexample:
  "umap_find (fragments_ctx_map two_fragments_mgr) (TUniqueId 7 0) \<noteq> None \<and>
   TUniqueId 7 2 \<in> set (fragment_ids (snd (hd (fragments_ctx_map two_fragments_mgr)))) \<and>
   map_option cancelled (umap_find (fragment_map two_fragments_mgr) (TUniqueId 7 2)) = Some True \<and>
   \<not> query_is_canceled two_fragments_mgr (TUniqueId 7 0) \<and>
   umap_find (fragments_ctx_map failed_prepare_mgr) (TUniqueId 8 0) \<noteq> None \<and>
   fragment_map failed_prepare_mgr = [] \<and> pipeline_map failed_prepare_mgr = [] \<and>
   query_is_canceled failed_prepare_mgr (TUniqueId 8 0)"
  by (simp add: two_fragments_mgr_def one_fragment_mgr_def failed_prepare_mgr_def
      query_is_canceled_def run_manager)

text \<open>
  C5, amended.  \<open>query_is_canceled\<close> is true when the query context is unknown.  For a
  known context it walks the registered fragment-instance ids in registration order,
  stops at the first id that is present in the live-fragment map or in the pipeline map,
  and returns the cancelled flag of that instance (the live-fragment map is consulted
  first); it is true when none of the registered ids is present in either map.
\<close>

theorem query_is_canceled_first_registered:
  "query_is_canceled m qid =
     (case umap_find (fragments_ctx_map m) qid of
        None \<Rightarrow> True
      | Some ctx \<Rightarrow>
          (case find (\<lambda>it. umap_find (fragment_map m) it \<noteq> None \<or>
                            umap_find (pipeline_map m) it \<noteq> None) (fragment_ids ctx) of
             None \<Rightarrow> True
           | Some it \<Rightarrow>
               (case umap_find (fragment_map m) it of
                  Some exec_state \<Rightarrow> cancelled exec_state
                | None \<Rightarrow>
                    (case umap_find (pipeline_map m) it of
                       Some pctx \<Rightarrow> pfc_cancelled pctx
                     | None \<Rightarrow> True))))"
  by (simp add: query_is_canceled_def first_registered_find split: option.splits)

theorem query_is_canceled_first_registered_witness:
  "query_is_canceled two_fragments_mgr (TUniqueId 7 0) = False \<and>
   query_is_canceled two_fragments_mgr (TUniqueId 9 9) = True"
  using query_is_canceled_first_registered [of two_fragments_mgr "TUniqueId 7 0"]
    query_is_canceled_first_registered [of two_fragments_mgr "TUniqueId 9 9"]
  by (simp add: two_fragments_mgr_def one_fragment_mgr_def run_manager)

section \<open>The memory limit of a new query context\<close>

text \<open>
  C7.  When a new query context is built and the process-wide ceiling is a byte count
  (or the marker \<open>-1\<close>), the limit of its memory tracker is: the ceiling, when the
  requested limit is set, positive and above the ceiling; the requested limit itself,
  when it is set, positive and at most the ceiling; and \<open>-1\<close> (unlimited) when the
  limit is unset or not positive.
\<close>

theorem query_mem_limit_clamped:
  assumes built: "new_query_ctx env params qid pipeline = Inr ctx"
    and ceiling: "- 1 \<le>s process_mem_limit env"
  shows "(\<forall>v. mem_limit (query_options params) = Some v \<and> 0 <s v \<and> process_mem_limit env <s v \<longrightarrow>
            tracker_limit (query_mem_tracker ctx) = process_mem_limit env) \<and>
         (\<forall>v. mem_limit (query_options params) = Some v \<and> 0 <s v \<and> v \<le>s process_mem_limit env \<longrightarrow>
            tracker_limit (query_mem_tracker ctx) = v) \<and>
         (mem_limit (query_options params) = None \<or>
          (\<exists>v. mem_limit (query_options params) = Some v \<and> v \<le>s 0) \<longrightarrow>
            tracker_limit (query_mem_tracker ctx) = - 1)"
proof -
  from built have lim: "tracker_limit (query_mem_tracker ctx) =
      query_bytes_limit (query_options params) (process_mem_limit env)"
    by (auto simp: new_query_ctx_def Let_def split: if_splits)
  from ceiling have nlt: "\<not> process_mem_limit env <s - 1"
    by (simp add: word_sless_alt word_sle_eq)
  show ?thesis
    unfolding lim using nlt
    by (auto simp: query_bytes_limit_def Let_def word_sless_alt word_sle_eq)
qed

text \<open>A request for 10 GB under a process ceiling of 4 GB yields a 4 GB tracker.\<close>

theorem query_mem_limit_clamped_witness:
  "(case new_query_ctx ok_env (request (TUniqueId 7 0) (TUniqueId 7 1) False) (TUniqueId 7 0) False of
      Inl err \<Rightarrow> False
    | Inr ctx \<Rightarrow> tracker_limit (query_mem_tracker ctx) = 4294967296) \<and>
   mem_limit (query_options (request (TUniqueId 7 0) (TUniqueId 7 1) False)) = Some 10737418240 \<and>
   process_mem_limit ok_env = 4294967296"
proof -
  obtain ctx where b:
    "new_query_ctx ok_env (request (TUniqueId 7 0) (TUniqueId 7 1) False) (TUniqueId 7 0) False = Inr ctx"
    by (simp add: new_query_ctx_def ok_env_def ok_def Let_def)
  have c: "- 1 \<le>s process_mem_limit ok_env"
    by (simp add: ok_env_def word_sle_eq)
  from query_mem_limit_clamped [OF b c]
  have "tracker_limit (query_mem_tracker ctx) = 4294967296"
    by (simp add: request_def ok_env_def word_sless_alt)
  with b show ?thesis
    by (simp add: request_def ok_env_def)
qed

section \<open>Reporting to the coordinator\<close>

lemma update_fn_executor: "executor (update_fn st s) = executor s"
  by (simp add: update_fn_def update_status_def Let_def)

lemma report_finish_events: "snd (report_finish st ev s) = ev"
  by (simp add: report_finish_def)

lemma callback_events:
  "snd (coordinator_callback co addr st s) \<in>
     {[], [ReportExecStatus], [ReportExecStatus, Reopen],
      [ReportExecStatus, Reopen, ReportExecStatus]}"
  by (simp add: coordinator_callback_def Let_def report_finish_events split: RpcOutcome.splits)

lemma update_fn_state:
  "update_fn st s = s\<lparr>exec_status := (if exec_status s = OK then st else exec_status s)\<rparr>"
  by (simp add: update_fn_def update_status_def ok_def Let_def)

lemma cancel_fn_state:
  "cancel_fn reason msg s =
     s\<lparr>executor := (executor s)\<lparr>cancel_calls := cancel_calls (executor s) @ [(reason, msg)]\<rparr>\<rparr>"
  by (simp add: cancel_fn_def executor_cancel_def)

lemma report_finish_state:
  "report_finish rpc_status events s =
     (if rpc_status = OK then (s, events)
      else (s\<lparr>exec_status := (if exec_status s = OK then rpc_status else exec_status s),
              executor := (executor s)\<lparr>cancel_calls :=
                 cancel_calls (executor s) @ [(INTERNAL_ERROR, ''rpc fail 2'')]\<rparr>\<rparr>, events))"
  by (simp add: report_finish_def ok_def update_fn_state cancel_fn_state)

lemma callback_cancelled: "cancelled (fst (coordinator_callback co addr st s)) = cancelled s"
  by (simp add: coordinator_callback_def Let_def report_finish_state update_fn_state
      cancel_fn_state split: RpcOutcome.splits)

text \<open>
  C8.  A callback calls \<open>reportExecStatus\<close> at most twice and reopens the connection at
  most once, and it never changes the fragment's own cancelled flag.  When the first call
  fails with a transport exception the connection is reopened once.  If \<open>reopen\<close>
  fails, there is no second call: the stored status becomes the reopen status unless an
  earlier failure is already stored, and the executor receives one more cancel call, with
  reason \<open>INTERNAL_ERROR\<close>.  If \<open>reopen\<close> succeeds, the report is sent exactly once
  more.  When this second call returns OK, the fragment state is the one after the
  initial status update and the executor receives no cancel call.  When it returns a
  non-OK status, or throws, the stored status becomes that status (for an exception, the
  internal error built from its text) unless an earlier failure is already stored, and
  the executor receives one more cancel call, with reason \<open>INTERNAL_ERROR\<close>.  Nothing
  else in the fragment state changes.
\<close>

theorem report_retries_once:
  "count_list (snd (coordinator_callback co addr st s)) ReportExecStatus \<le> 2 \<and>
   count_list (snd (coordinator_callback co addr st s)) Reopen \<le> 1 \<and>
   cancelled (fst (coordinator_callback co addr st s)) = cancelled s \<and>
   (coord_status co = OK \<and> first_report co = Throws_TTransportException what \<longrightarrow>
      (reopen_status co \<noteq> OK \<longrightarrow>
         coordinator_callback co addr st s =
           (s\<lparr>exec_status :=
                 (if exec_status s \<noteq> OK then exec_status s
                  else if st \<noteq> OK then st else reopen_status co),
               executor := (executor s)\<lparr>cancel_calls :=
                 cancel_calls (executor s) @ [(INTERNAL_ERROR, ''report rpc fail'')]\<rparr>\<rparr>,
            [ReportExecStatus, Reopen])) \<and>
      (reopen_status co = OK \<and> second_report co = Returns OK \<longrightarrow>
         coordinator_callback co addr st s =
           (s\<lparr>exec_status := (if exec_status s \<noteq> OK then exec_status s else st)\<rparr>,
            [ReportExecStatus, Reopen, ReportExecStatus]) \<and>
         cancel_calls (executor (fst (coordinator_callback co addr st s))) =
           cancel_calls (executor s)) \<and>
      (\<forall>err. reopen_status co = OK \<and> err \<noteq> OK \<and>
          (second_report co = Returns err \<or>
           (\<exists>what2. (second_report co = Throws_TTransportException what2 \<or>
                      second_report co = Throws_TException what2) \<and>
                     err = Err InternalError
                       (''ReportExecStatus() to '' @ addr @ '' failed:'' @ [CHR 0x0A] @ what2))) \<longrightarrow>
         coordinator_callback co addr st s =
           (s\<lparr>exec_status :=
                 (if exec_status s \<noteq> OK then exec_status s
                  else if st \<noteq> OK then st else err),
               executor := (executor s)\<lparr>cancel_calls :=
                 cancel_calls (executor s) @ [(INTERNAL_ERROR, ''rpc fail 2'')]\<rparr>\<rparr>,
            [ReportExecStatus, Reopen, ReportExecStatus])))"
proof (intro conjI impI allI)
  have ev: "snd (coordinator_callback co addr st s) \<in>
     {[], [ReportExecStatus], [ReportExecStatus, Reopen],
      [ReportExecStatus, Reopen, ReportExecStatus]}"
    by (rule callback_events)
  then show "count_list (snd (coordinator_callback co addr st s)) ReportExecStatus \<le> 2"
    by auto
  from ev show "count_list (snd (coordinator_callback co addr st s)) Reopen \<le> 1"
    by auto
  show "cancelled (fst (coordinator_callback co addr st s)) = cancelled s"
    by (rule callback_cancelled)
next
  assume a: "coord_status co = OK \<and> first_report co = Throws_TTransportException what"
    and b: "reopen_status co \<noteq> OK"
  then show "coordinator_callback co addr st s =
           (s\<lparr>exec_status :=
                 (if exec_status s \<noteq> OK then exec_status s
                  else if st \<noteq> OK then st else reopen_status co),
               executor := (executor s)\<lparr>cancel_calls :=
                 cancel_calls (executor s) @ [(INTERNAL_ERROR, ''report rpc fail'')]\<rparr>\<rparr>,
            [ReportExecStatus, Reopen])"
    by (simp add: coordinator_callback_def Let_def ok_def update_fn_state cancel_fn_state)
next
  assume a: "coord_status co = OK \<and> first_report co = Throws_TTransportException what"
    and b: "reopen_status co = OK \<and> second_report co = Returns OK"
  then show r: "coordinator_callback co addr st s =
           (s\<lparr>exec_status := (if exec_status s \<noteq> OK then exec_status s else st)\<rparr>,
            [ReportExecStatus, Reopen, ReportExecStatus])"
    by (simp add: coordinator_callback_def Let_def ok_def report_finish_state update_fn_state)
  show "cancel_calls (executor (fst (coordinator_callback co addr st s))) =
           cancel_calls (executor s)"
    by (simp add: r)
next
  fix err
  assume a: "coord_status co = OK \<and> first_report co = Throws_TTransportException what"
    and b: "reopen_status co = OK \<and> err \<noteq> OK \<and>
          (second_report co = Returns err \<or>
           (\<exists>what2. (second_report co = Throws_TTransportException what2 \<or>
                      second_report co = Throws_TException what2) \<and>
                     err = Err InternalError
                       (''ReportExecStatus() to '' @ addr @ '' failed:'' @ [CHR 0x0A] @ what2)))"
  then show "coordinator_callback co addr st s =
           (s\<lparr>exec_status :=
                 (if exec_status s \<noteq> OK then exec_status s
                  else if st \<noteq> OK then st else err),
               executor := (executor s)\<lparr>cancel_calls :=
                 cancel_calls (executor s) @ [(INTERNAL_ERROR, ''rpc fail 2'')]\<rparr>\<rparr>,
            [ReportExecStatus, Reopen, ReportExecStatus])"
    by (auto simp: coordinator_callback_def Let_def ok_def report_finish_state update_fn_state
        rpc_exception_status_def)
qed

text \<open>
  Transport failure on the first attempt, reconnect and second attempt succeed: two
  reports, one reopen, the fragment state untouched.  With a refused reconnect, or a
  second attempt that the coordinator answers with an error, the status is stored and the
  executor cancelled.
\<close>

theorem report_retries_once_witness:
  "coordinator_callback flaky_coordinator ''fe:9020'' OK fresh_exec_state =
     (fresh_exec_state, [ReportExecStatus, Reopen, ReportExecStatus]) \<and>
   coordinator_callback (flaky_coordinator\<lparr>reopen_status := Err InternalError ''refused''\<rparr>)
       ''fe:9020'' OK fresh_exec_state =
     (fresh_exec_state
        \<lparr>exec_status := Err InternalError ''refused'',
         executor := \<lparr>is_report_on_cancel = True,
                      cancel_calls = [(INTERNAL_ERROR, ''report rpc fail'')]\<rparr>\<rparr>,
      [ReportExecStatus, Reopen]) \<and>
   coordinator_callback (flaky_coordinator\<lparr>second_report := Returns (Err Cancelled ''gone'')\<rparr>)
       ''fe:9020'' OK fresh_exec_state =
     (fresh_exec_state
        \<lparr>exec_status := Err Cancelled ''gone'',
         executor := \<lparr>is_report_on_cancel = True,
                      cancel_calls = [(INTERNAL_ERROR, ''rpc fail 2'')]\<rparr>\<rparr>,
      [ReportExecStatus, Reopen, ReportExecStatus])"
  using report_retries_once [of flaky_coordinator "''fe:9020''" OK fresh_exec_state
      "''broken pipe''"]
    report_retries_once [of "flaky_coordinator\<lparr>reopen_status := Err InternalError ''refused''\<rparr>"
      "''fe:9020''" OK fresh_exec_state "''broken pipe''"]
    report_retries_once [of "flaky_coordinator\<lparr>second_report := Returns (Err Cancelled ''gone'')\<rparr>"
      "''fe:9020''" OK fresh_exec_state "''broken pipe''"]
  by (simp add: flaky_coordinator_def fresh_exec_state_def)

section \<open>Splits of compressed CSV files\<close>

text \<open>
  C9.  For a scan range with a non-zero start offset over a compressed file (the format
  is not plain CSV, or the compression type is neither UNKNOWN nor PLAIN),
  \<open>init_reader\<close> returns the internal error that split compressed files are not
  supported, and leaves the reader as it was: nothing is opened or read.
\<close>

theorem init_reader_split_compressed:
  assumes "range_start_offset r \<noteq> 0"
    and "file_format_type r \<noteq> FORMAT_CSV_PLAIN \<or>
         (file_compress_type r \<noteq> UNKNOWN \<and> file_compress_type r \<noteq> PLAIN)"
  shows "init_reader env is_load r =
           (Err InternalError ''For now we do not support split compressed file'', r)"
  using assms by (simp add: init_reader_def)

theorem init_reader_split_compressed_witness:
  "init_reader csv_env False gz_split_reader =
     (Err InternalError ''For now we do not support split compressed file'', gz_split_reader)"
  using init_reader_split_compressed [of gz_split_reader csv_env False]
  by (simp add: gz_split_reader_def)

section \<open>End of file in the Parquet reader\<close>

lemma get_next_block_at_eof:
  assumes "current_group_reader rd = None \<or> row_group_eof rd" and "read_row_groups rd = []"
  shows "get_next_block orc rd =
           (eof_result, rd\<lparr>current_group_reader := None, row_group_eof := True\<rparr>)"
  using assms by (auto simp: get_next_block_def eof_result_def)

lemma get_next_block_seq_at_eof:
  assumes "current_group_reader rd = None" and "row_group_eof rd" and "read_row_groups rd = []"
  shows "get_next_block_seq orcs rd = (replicate (length orcs) eof_result, rd)"
  using assms
proof (induction orcs)
  case Nil
  then show ?case by simp
next
  case (Cons orc orcs)
  then have "get_next_block orc rd = (eof_result, rd)"
    by (simp add: get_next_block_def eof_result_def)
  with Cons show ?case by simp
qed

lemma read_batch_eof:
  "eof (fst (read_batch orc rd)) = Some True \<Longrightarrow>
   result_status (fst (read_batch orc rd)) = OK \<and>
   row_group_eof (snd (read_batch orc rd)) \<and> read_row_groups (snd (read_batch orc rd)) = []"
  by (auto simp: read_batch_def Let_def split: if_splits)

lemma get_next_block_eof_post:
  assumes "eof (fst (get_next_block orc rd)) = Some True"
  shows "result_status (fst (get_next_block orc rd)) = OK \<and>
         row_group_eof (snd (get_next_block orc rd)) \<and>
         read_row_groups (snd (get_next_block orc rd)) = []"
proof (cases "current_group_reader rd = None \<or> row_group_eof rd")
  case True
  show ?thesis
  proof (cases "read_row_groups rd")
    case Nil
    with True show ?thesis by (simp add: get_next_block_at_eof eof_result_def)
  next
    case (Cons g gs)
    obtain st rd1 where n: "next_row_group_reader orc rd = (st, rd1)"
      by (cases "next_row_group_reader orc rd")
    show ?thesis
    proof (cases "ok st")
      case okst: True
      with True Cons n have "get_next_block orc rd = read_batch orc rd1"
        by (auto simp: get_next_block_def)
      with assms show ?thesis using read_batch_eof [of orc rd1] by simp
    next
      case False
      with True Cons n have "get_next_block orc rd =
          (\<lparr>result_status = st, read_rows = None, eof = None\<rparr>, rd1)"
        by (auto simp: get_next_block_def)
      with assms show ?thesis by simp
    qed
  qed
next
  case False
  then have "get_next_block orc rd = read_batch orc rd"
    by (auto simp: get_next_block_def)
  with assms show ?thesis using read_batch_eof [of orc rd] by simp
qed

text \<open>
  C10, as stated, fails in its last part: \<open>eof = true\<close> is also returned by a call
  that starts with a current row-group reader that is not exhausted.  In
  \<open>last_group_reader\<close> the queue is empty and the reader is in the middle of the last
  row group; the call in which \<open>next_batch\<close> delivers the last five rows returns
  \<open>rows_read = 5\<close> together with \<open>eof = true\<close>.
\<close>

theorem get_next_block_eof_counterexample:
  "current_group_reader last_group_reader \<noteq> None \<and>
   row_group_eof last_group_reader = False \<and>
   fst (get_next_block last_batch last_group_reader) =
     \<lparr>result_status = OK, read_rows = Some 5, eof = Some True\<rparr>"
  by (simp add: last_group_reader_def last_batch_def get_next_block_def read_batch_def ok_def)

lemma read_batch_ok:
  "batch_st orc = OK \<Longrightarrow>
   fst (read_batch orc rd) =
     \<lparr>result_status = OK, read_rows = Some (batch_read_rows orc),
      eof = (if batch_row_group_eof orc then Some (read_row_groups rd = []) else None)\<rparr> \<and>
   row_group_eof (snd (read_batch orc rd)) = batch_row_group_eof orc \<and>
   read_row_groups (snd (read_batch orc rd)) = read_row_groups rd"
  by (simp add: read_batch_def Let_def ok_def)

lemma read_batch_eof_rows:
  "eof (fst (read_batch orc rd)) = Some True \<Longrightarrow>
   read_rows (fst (read_batch orc rd)) = Some (batch_read_rows orc) \<and>
   batch_st orc = OK \<and> batch_row_group_eof orc"
  by (auto simp: read_batch_def Let_def ok_def split: if_splits)

lemma get_next_block_live:
  assumes "current_group_reader rd \<noteq> None" "\<not> row_group_eof rd"
  shows "get_next_block orc rd = read_batch orc rd"
  using assms by (auto simp: get_next_block_def)

lemma get_next_block_load:
  assumes "current_group_reader rd = None \<or> row_group_eof rd"
    and "read_row_groups rd = g # rest"
    and "process_page_index (page_index_ctx rd) (row_group g) = Inr res"
    and "reader_init orc = OK"
  shows "\<exists>rd1. get_next_block orc rd = read_batch orc rd1 \<and> read_row_groups rd1 = rest"
  using assms by (auto simp: get_next_block_def next_row_group_reader_def Let_def ok_def)

lemma get_next_block_eof_rows:
  assumes e: "eof (fst (get_next_block orc rd)) = Some True"
  shows "((current_group_reader rd = None \<or> row_group_eof rd) \<and> read_row_groups rd = [] \<and>
            read_rows (fst (get_next_block orc rd)) = Some 0) \<or>
         (read_rows (fst (get_next_block orc rd)) = Some (batch_read_rows orc) \<and>
            batch_st orc = OK \<and> batch_row_group_eof orc)"
proof (cases "current_group_reader rd = None \<or> row_group_eof rd")
  case True
  show ?thesis
  proof (cases "read_row_groups rd")
    case Nil
    with True show ?thesis by (simp add: get_next_block_at_eof eof_result_def)
  next
    case (Cons g gs)
    obtain st rd1 where n: "next_row_group_reader orc rd = (st, rd1)"
      by (cases "next_row_group_reader orc rd")
    show ?thesis
    proof (cases "ok st")
      case okst: True
      with True Cons n have "get_next_block orc rd = read_batch orc rd1"
        by (auto simp: get_next_block_def)
      with e show ?thesis using read_batch_eof_rows [of orc rd1] by simp
    next
      case False
      with True Cons n have "get_next_block orc rd =
          (\<lparr>result_status = st, read_rows = None, eof = None\<rparr>, rd1)"
        by (auto simp: get_next_block_def)
      with e show ?thesis by simp
    qed
  qed
next
  case False
  then have "get_next_block orc rd = read_batch orc rd"
    by (auto simp: get_next_block_def)
  with e show ?thesis using read_batch_eof_rows [of orc rd] by simp
qed

text \<open>
  C10, amended.  Whenever the current row-group reader is absent or exhausted and the
  queue of pending row groups is empty, \<open>get_next_block\<close> returns OK with
  \<open>rows_read = 0\<close> and \<open>eof = true\<close>, resets the current reader, and every later call
  returns the same result and leaves the reader in the same state.  Every call that
  returns \<open>eof = true\<close> returns OK and leaves the reader with its current row group
  exhausted and the queue empty; it is either a call in the situation above, with
  \<open>rows_read = 0\<close>, or a call whose \<open>next_batch\<close> succeeded and exhausted its row
  group, with the \<open>rows_read\<close> of that batch.  A call that starts with a live reader and
  whose \<open>next_batch\<close> succeeds returns the rows of the batch; it writes \<open>eof\<close> only
  when the batch exhausts the row group, and then \<open>eof\<close> is true exactly when the queue
  is empty.  The same holds for a call that first takes the next row group from the
  queue, with the queue as it is after that.
\<close>

theorem get_next_block_eof_absorbing:
  "((current_group_reader rd = None \<or> row_group_eof rd) \<and> read_row_groups rd = [] \<longrightarrow>
      get_next_block orc rd =
        (eof_result, rd\<lparr>current_group_reader := None, row_group_eof := True\<rparr>) \<and>
      get_next_block_seq orcs (snd (get_next_block orc rd)) =
        (replicate (length orcs) eof_result, snd (get_next_block orc rd))) \<and>
   (eof (fst (get_next_block orc rd)) = Some True \<longrightarrow>
      result_status (fst (get_next_block orc rd)) = OK \<and>
      row_group_eof (snd (get_next_block orc rd)) \<and>
      read_row_groups (snd (get_next_block orc rd)) = []) \<and>
   (eof (fst (get_next_block orc rd)) = Some True \<longrightarrow>
      ((current_group_reader rd = None \<or> row_group_eof rd) \<and> read_row_groups rd = [] \<and>
         read_rows (fst (get_next_block orc rd)) = Some 0) \<or>
      (read_rows (fst (get_next_block orc rd)) = Some (batch_read_rows orc) \<and>
         batch_st orc = OK \<and> batch_row_group_eof orc)) \<and>
   (current_group_reader rd \<noteq> None \<and> \<not> row_group_eof rd \<and> batch_st orc = OK \<longrightarrow>
      fst (get_next_block orc rd) =
        \<lparr>result_status = OK, read_rows = Some (batch_read_rows orc),
         eof = (if batch_row_group_eof orc then Some (read_row_groups rd = []) else None)\<rparr> \<and>
      row_group_eof (snd (get_next_block orc rd)) = batch_row_group_eof orc \<and>
      read_row_groups (snd (get_next_block orc rd)) = read_row_groups rd) \<and>
   (\<forall>g rest res.
      (current_group_reader rd = None \<or> row_group_eof rd) \<and> read_row_groups rd = g # rest \<and>
      process_page_index (page_index_ctx rd) (row_group g) = Inr res \<and>
      reader_init orc = OK \<and> batch_st orc = OK \<longrightarrow>
      fst (get_next_block orc rd) =
        \<lparr>result_status = OK, read_rows = Some (batch_read_rows orc),
         eof = (if batch_row_group_eof orc then Some (rest = []) else None)\<rparr> \<and>
      row_group_eof (snd (get_next_block orc rd)) = batch_row_group_eof orc \<and>
      read_row_groups (snd (get_next_block orc rd)) = rest)"
proof (intro conjI impI allI)
  assume a: "(current_group_reader rd = None \<or> row_group_eof rd) \<and> read_row_groups rd = []"
  then show r: "get_next_block orc rd =
      (eof_result, rd\<lparr>current_group_reader := None, row_group_eof := True\<rparr>)"
    by (simp add: get_next_block_at_eof)
  from a show "get_next_block_seq orcs (snd (get_next_block orc rd)) =
      (replicate (length orcs) eof_result, snd (get_next_block orc rd))"
    by (simp add: r get_next_block_seq_at_eof)
next
  assume e: "eof (fst (get_next_block orc rd)) = Some True"
  from get_next_block_eof_post [OF e]
  show "result_status (fst (get_next_block orc rd)) = OK"
    and "row_group_eof (snd (get_next_block orc rd))"
    and "read_row_groups (snd (get_next_block orc rd)) = []"
    by simp_all
next
  assume e: "eof (fst (get_next_block orc rd)) = Some True"
  then show "((current_group_reader rd = None \<or> row_group_eof rd) \<and> read_row_groups rd = [] \<and>
         read_rows (fst (get_next_block orc rd)) = Some 0) \<or>
      (read_rows (fst (get_next_block orc rd)) = Some (batch_read_rows orc) \<and>
         batch_st orc = OK \<and> batch_row_group_eof orc)"
    by (rule get_next_block_eof_rows)
next
  assume a: "current_group_reader rd \<noteq> None \<and> \<not> row_group_eof rd \<and> batch_st orc = OK"
  then have g: "get_next_block orc rd = read_batch orc rd"
    by (simp add: get_next_block_live)
  from a read_batch_ok [of orc rd]
  show "fst (get_next_block orc rd) =
        \<lparr>result_status = OK, read_rows = Some (batch_read_rows orc),
         eof = (if batch_row_group_eof orc then Some (read_row_groups rd = []) else None)\<rparr>"
    and "row_group_eof (snd (get_next_block orc rd)) = batch_row_group_eof orc"
    and "read_row_groups (snd (get_next_block orc rd)) = read_row_groups rd"
    by (simp_all add: g)
next
  fix g rest res
  assume a: "(current_group_reader rd = None \<or> row_group_eof rd) \<and> read_row_groups rd = g # rest \<and>
      process_page_index (page_index_ctx rd) (row_group g) = Inr res \<and>
      reader_init orc = OK \<and> batch_st orc = OK"
  then obtain rd1 where l: "get_next_block orc rd = read_batch orc rd1" "read_row_groups rd1 = rest"
    using get_next_block_load [of rd g rest res orc] by blast
  from a read_batch_ok [of orc rd1]
  show "fst (get_next_block orc rd) =
        \<lparr>result_status = OK, read_rows = Some (batch_read_rows orc),
         eof = (if batch_row_group_eof orc then Some (rest = []) else None)\<rparr>"
    and "row_group_eof (snd (get_next_block orc rd)) = batch_row_group_eof orc"
    and "read_row_groups (snd (get_next_block orc rd)) = rest"
    by (simp_all add: l)
qed

text \<open>
  The call that reads the last batch returns its five rows with \<open>eof = true\<close>; after
  it the reader is at the end of the file: three more calls return the end-of-file result
  and leave the reader alone.
\<close>

theorem get_next_block_eof_absorbing_witness:
  "fst (get_next_block last_batch last_group_reader) =
     \<lparr>result_status = OK, read_rows = Some 5, eof = Some True\<rparr> \<and>
   get_next_block_seq [last_batch, last_batch, last_batch]
       (snd (get_next_block last_batch last_group_reader)) =
     ([eof_result, eof_result, eof_result],
      (snd (get_next_block last_batch last_group_reader))
        \<lparr>current_group_reader := None, row_group_eof := True\<rparr>) \<and>
   row_group_eof (snd (get_next_block last_batch last_group_reader)) \<and>
   read_row_groups (snd (get_next_block last_batch last_group_reader)) = []"
  using get_next_block_eof_absorbing [of "snd (get_next_block last_batch last_group_reader)"
      last_batch "[last_batch, last_batch]"]
    get_next_block_eof_absorbing [of last_group_reader last_batch "[]"]
  by (simp add: last_group_reader_def last_batch_def get_next_block_def read_batch_def ok_def
      eof_result_def)

section \<open>Page-index pruning\<close>

lemma to_int32_id: "- (2 ^ 31) \<le> x \<Longrightarrow> x < 2 ^ 31 \<Longrightarrow> to_int32 x = x"
  unfolding to_int32_def by (rule signed_take_bit_int_eq_self)

lemma rows_of_snoc: "rows_of (cs @ [c]) = rows_of cs \<union> {first_row c ..< last_row c}"
  by (auto simp: rows_of_def)

lemma rows_of_Cons: "rows_of (r # rs) = {first_row r ..< last_row r} \<union> rows_of rs"
  by (auto simp: rows_of_def)

lemma rows_of_below:
  "\<forall>c \<in> set cs. last_row c \<le> b \<Longrightarrow> x \<in> rows_of cs \<Longrightarrow> x < b"
  by (auto simp: rows_of_def)

lemma ascending_disjoint_snoc:
  "ascending_disjoint cs \<Longrightarrow> first_row c \<le> last_row c \<Longrightarrow>
   \<forall>d \<in> set cs. last_row d \<le> first_row c \<Longrightarrow> ascending_disjoint (cs @ [c])"
  by (auto simp: ascending_disjoint_def sorted_wrt_append)

text \<open>
  The invariant of the sweep, for skipped ranges that lie inside a row group of fewer than
  \<open>2^31\<close> rows: the candidates emitted so far and the rows \<open>D\<close> of the skipped ranges
  consumed so far partition the rows below \<open>skip_end\<close>.
\<close>

lemma skip_sweep_partition:
  assumes "sorted_wrt (\<lambda>a b. first_row a \<le> first_row b) rs"
    and "\<forall>r \<in> set rs. 0 \<le> first_row r \<and> first_row r \<le> last_row r \<and> last_row r \<le> n"
    and "n < 2 ^ 31"
    and "0 \<le> e" and "e \<le> n"
    and "rows_of cands \<union> D = {0 ..< e}"
    and "rows_of cands \<inter> D = {}"
    and "ascending_disjoint cands"
    and "\<forall>c \<in> set cands. last_row c \<le> e"
    and "\<forall>c \<in> set cands. \<forall>r \<in> set rs. last_row c \<le> first_row r"
    and "skip_sweep rs (e, cands, rr) = (e', cands', rr')"
  shows "0 \<le> e' \<and> e' \<le> n \<and> rows_of cands' \<union> (D \<union> rows_of rs) = {0 ..< e'} \<and>
         rows_of cands' \<inter> (D \<union> rows_of rs) = {} \<and> ascending_disjoint cands' \<and>
         (\<forall>c \<in> set cands'. last_row c \<le> e')"
  using assms
proof (induction rs arbitrary: e cands rr D)
  case Nil
  then show ?case by (simp add: rows_of_def)
next
  case (Cons r rs)
  let ?f = "first_row r" and ?l = "last_row r"
  let ?X = "{?f ..< ?l}"
  from Cons.prems(2) have r: "0 \<le> ?f" "?f \<le> ?l" "?l \<le> n" by simp_all
  with Cons.prems(3) have tr: "to_int32 ?l = ?l" by (intro to_int32_id) simp_all
  from Cons.prems(1) have srt: "sorted_wrt (\<lambda>a b. first_row a \<le> first_row b) rs"
    and fst_le: "\<forall>r' \<in> set rs. ?f \<le> first_row r'" by simp_all
  from Cons.prems(2)
  have wf: "\<forall>r \<in> set rs. 0 \<le> first_row r \<and> first_row r \<le> last_row r \<and> last_row r \<le> n"
    by simp
  from Cons.prems(10) have cr: "\<forall>c \<in> set cands. last_row c \<le> ?f"
    and crs: "\<forall>c \<in> set cands. \<forall>r \<in> set rs. last_row c \<le> first_row r" by simp_all
  have cX: "rows_of cands \<inter> ?X = {}"
    using rows_of_below [OF cr] by fastforce
  have DU: "D \<union> rows_of (r # rs) = (D \<union> ?X) \<union> rows_of rs"
    by (auto simp: rows_of_Cons)
  show ?case
  proof (cases "e \<ge> ?f")
    case True
    show ?thesis
    proof (cases "e < ?l")
      case lt: True
      with True tr Cons.prems(11)
      have sw: "skip_sweep rs (?l, cands, rr) = (e', cands', rr')" by simp
      have u: "rows_of cands \<union> (D \<union> ?X) = {0 ..< ?l}"
      proof -
        have "rows_of cands \<union> (D \<union> ?X) = (rows_of cands \<union> D) \<union> ?X" by blast
        also have "\<dots> = {0 ..< e} \<union> ?X" by (simp only: Cons.prems(6))
        also have "\<dots> = {0 ..< ?l}" using True lt r Cons.prems(4) by auto
        finally show ?thesis .
      qed
      have d: "rows_of cands \<inter> (D \<union> ?X) = {}"
        using Cons.prems(7) cX by blast
      have le: "\<forall>c \<in> set cands. last_row c \<le> ?l"
        using Cons.prems(9) lt by fastforce
      from Cons.IH [OF srt wf Cons.prems(3) _ r(3) u d Cons.prems(8) le crs sw] r
      show ?thesis unfolding DU by simp
    next
      case ge: False
      with True Cons.prems(11)
      have sw: "skip_sweep rs (e, cands, rr) = (e', cands', rr')" by simp
      have u: "rows_of cands \<union> (D \<union> ?X) = {0 ..< e}"
      proof -
        have "rows_of cands \<union> (D \<union> ?X) = (rows_of cands \<union> D) \<union> ?X" by blast
        also have "\<dots> = {0 ..< e} \<union> ?X" by (simp only: Cons.prems(6))
        also have "\<dots> = {0 ..< e}" using ge r by auto
        finally show ?thesis .
      qed
      have d: "rows_of cands \<inter> (D \<union> ?X) = {}"
        using Cons.prems(7) cX by blast
      from Cons.IH [OF srt wf Cons.prems(3) Cons.prems(4) Cons.prems(5) u d Cons.prems(8)
          Cons.prems(9) crs sw]
      show ?thesis unfolding DU by simp
    qed
  next
    case False
    let ?c = "\<lparr>first_row = e, last_row = ?f\<rparr>"
    from False tr Cons.prems(11)
    have sw: "skip_sweep rs (?l, cands @ [?c], to_int64 (rr + (?f - e))) = (e', cands', rr')"
      by simp
    have u: "rows_of (cands @ [?c]) \<union> (D \<union> ?X) = {0 ..< ?l}"
    proof -
      have "rows_of (cands @ [?c]) \<union> (D \<union> ?X) = (rows_of cands \<union> D) \<union> ({e ..< ?f} \<union> ?X)"
        by (auto simp: rows_of_snoc)
      also have "\<dots> = {0 ..< e} \<union> ({e ..< ?f} \<union> ?X)" by (simp only: Cons.prems(6))
      also have "\<dots> = {0 ..< ?l}" using False r Cons.prems(4) by auto
      finally show ?thesis .
    qed
    have De: "\<And>x. x \<in> D \<Longrightarrow> x < e"
      using Cons.prems(6) by auto
    have d: "rows_of (cands @ [?c]) \<inter> (D \<union> ?X) = {}"
    proof -
      have "{e ..< ?f} \<inter> D = {}" using De by fastforce
      moreover have "{e ..< ?f} \<inter> ?X = {}" by auto
      moreover have "rows_of cands \<inter> ?X = {}" by (rule cX)
      ultimately show ?thesis using Cons.prems(7) by (auto simp: rows_of_snoc)
    qed
    have asc: "ascending_disjoint (cands @ [?c])"
      using Cons.prems(8,9) False by (intro ascending_disjoint_snoc) auto
    have le: "\<forall>c \<in> set (cands @ [?c]). last_row c \<le> ?l"
      using Cons.prems(9) False r by fastforce
    have crs': "\<forall>c \<in> set (cands @ [?c]). \<forall>r \<in> set rs. last_row c \<le> first_row r"
      using crs fst_le by auto
    from Cons.IH [OF srt wf Cons.prems(3) _ r(3) u d asc le crs' sw] r
    show ?thesis unfolding DU by simp
  qed
qed

lemma sort_by_first:
  "sorted_wrt (\<lambda>a b. first_row a \<le> first_row b)
     (sort_key (\<lambda>r. (first_row r, last_row r)) rs)"
proof -
  have "sorted (map (\<lambda>r. (first_row r, last_row r))
      (sort_key (\<lambda>r. (first_row r, last_row r)) rs))"
    by (rule sorted_sort_key)
  then have "sorted_wrt (\<lambda>a b. (first_row a, last_row a) \<le> (first_row b, last_row b))
      (sort_key (\<lambda>r. (first_row r, last_row r)) rs)"
    by (simp add: sorted_wrt_map)
  then show ?thesis
    by (rule sorted_wrt_mono_rel [rotated]) (auto simp: less_eq_prod_def)
qed

lemma rows_of_sort: "rows_of (sort_key f rs) = rows_of rs"
  by (simp add: rows_of_def)

lemma candidates_from_skipped_partition:
  assumes n: "0 \<le> n" "n < 2 ^ 31"
    and wf: "\<forall>r \<in> set skipped. 0 \<le> first_row r \<and> first_row r \<le> last_row r \<and> last_row r \<le> n"
  shows "rows_of (candidate_row_ranges (candidates_from_skipped n skipped)) \<union> rows_of skipped =
           {0 ..< n} \<and>
         rows_of (candidate_row_ranges (candidates_from_skipped n skipped)) \<inter> rows_of skipped = {} \<and>
         ascending_disjoint (candidate_row_ranges (candidates_from_skipped n skipped)) \<and>
         (skipped = [] \<longrightarrow>
            candidate_row_ranges (candidates_from_skipped n skipped) =
              [\<lparr>first_row = 0, last_row = n\<rparr>])"
proof (cases "skipped = []")
  case True
  with n show ?thesis
    by (simp add: candidates_from_skipped_def read_whole_row_group_def rows_of_def
        ascending_disjoint_def)
next
  case False
  let ?s = "sort_key (\<lambda>r. (first_row r, last_row r)) skipped"
  obtain e cands rr where sw: "skip_sweep ?s (0, [], 0) = (e, cands, rr)"
    by (cases "skip_sweep ?s (0, [], 0)")
  have wf': "\<forall>r \<in> set ?s. 0 \<le> first_row r \<and> first_row r \<le> last_row r \<and> last_row r \<le> n"
    using wf by simp
  have inv: "0 \<le> e \<and> e \<le> n \<and> rows_of cands \<union> ({} \<union> rows_of ?s) = {0 ..< e} \<and>
      rows_of cands \<inter> ({} \<union> rows_of ?s) = {} \<and> ascending_disjoint cands \<and>
      (\<forall>c \<in> set cands. last_row c \<le> e)"
    by (rule skip_sweep_partition [OF sort_by_first wf' n(2) _ n(1) _ _ _ _ _ sw])
       (simp_all add: rows_of_def ascending_disjoint_def)
  then have e: "0 \<le> e" "e \<le> n" and u: "rows_of cands \<union> rows_of skipped = {0 ..< e}"
    and d: "rows_of cands \<inter> rows_of skipped = {}" and a: "ascending_disjoint cands"
    and last_le: "\<forall>c \<in> set cands. last_row c \<le> e"
    by (simp_all add: rows_of_sort)
  show ?thesis
  proof (cases "e = n")
    case True
    with False sw u d a show ?thesis
      by (simp add: candidates_from_skipped_def)
  next
    case ne: False
    let ?c = "\<lparr>first_row = e, last_row = n\<rparr>"
    from False sw ne
    have res: "candidate_row_ranges (candidates_from_skipped n skipped) = cands @ [?c]"
      by (simp add: candidates_from_skipped_def)
    have below: "\<And>x. x \<in> rows_of cands \<union> rows_of skipped \<Longrightarrow> x < e"
      using u by auto
    have u': "rows_of (cands @ [?c]) \<union> rows_of skipped = {0 ..< n}"
    proof -
      have "rows_of (cands @ [?c]) \<union> rows_of skipped =
          (rows_of cands \<union> rows_of skipped) \<union> {e ..< n}"
        by (auto simp: rows_of_snoc)
      also have "\<dots> = {0 ..< e} \<union> {e ..< n}" by (simp only: u)
      also have "\<dots> = {0 ..< n}" using e by auto
      finally show ?thesis .
    qed
    have d': "rows_of (cands @ [?c]) \<inter> rows_of skipped = {}"
    proof -
      have "{e ..< n} \<inter> rows_of skipped = {}" using below by fastforce
      with d show ?thesis by (auto simp: rows_of_snoc)
    qed
    have a': "ascending_disjoint (cands @ [?c])"
      using a e ne last_le by (intro ascending_disjoint_snoc) auto
    from res u' d' a' False show ?thesis by simp
  qed
qed

lemma process_page_index_as_candidates:
  "process_page_index rd rg =
     (case skipped_row_ranges_of rd rg of
        Inl err \<Rightarrow> Inl err
      | Inr skipped \<Rightarrow> Inr (candidates_from_skipped (num_rows rg) skipped))"
  by (simp add: process_page_index_def skipped_row_ranges_of_def candidates_from_skipped_def
      split: sum.splits)

text \<open>
  For a row group of \<open>N < 2^31\<close> rows whose skipped ranges lie within \<open>[0, N]\<close>, the
  candidate ranges and the skipped ranges partition \<open>[0, N)\<close>: together they cover every
  row, no candidate range shares a row with a skipped range or with another candidate
  range, and without skipped ranges the single candidate range is \<open>[0, N)\<close>.
\<close>

lemma page_index_partition_in_int_range:
  assumes "skipped_row_ranges_of rd rg = Inr skipped"
    and "0 \<le> num_rows rg" and "num_rows rg < 2 ^ 31"
    and "\<forall>r \<in> set skipped.
           0 \<le> first_row r \<and> first_row r \<le> last_row r \<and> last_row r \<le> num_rows rg"
  shows "\<exists>res. process_page_index rd rg = Inr res \<and>
           rows_of (candidate_row_ranges res) \<union> rows_of skipped = {0 ..< num_rows rg} \<and>
           rows_of (candidate_row_ranges res) \<inter> rows_of skipped = {} \<and>
           ascending_disjoint (candidate_row_ranges res) \<and>
           (skipped = [] \<longrightarrow>
              candidate_row_ranges res = [\<lparr>first_row = 0, last_row = num_rows rg\<rparr>])"
  using candidates_from_skipped_partition [OF assms(2,3,4)] assms(1)
  by (simp add: process_page_index_as_candidates)

lemma page_index_partition_example:
  "candidate_row_ranges (candidates_from_skipped 100
     [\<lparr>first_row = 50, last_row = 60\<rparr>, \<lparr>first_row = 10, last_row = 20\<rparr>,
      \<lparr>first_row = 15, last_row = 30\<rparr>]) =
   [\<lparr>first_row = 0, last_row = 10\<rparr>, \<lparr>first_row = 30, last_row = 50\<rparr>,
    \<lparr>first_row = 60, last_row = 100\<rparr>]"
  by (simp add: candidates_from_skipped_def to_int32_def to_int64_def less_eq_prod_def)

text \<open>
  C2 does not hold for every row group.  \<open>skip_end\<close> is an \<open>int\<close>, the row numbers it
  is assigned are \<open>int64_t\<close>.  In \<open>huge_row_group\<close>, of 3000000000 rows, the only
  skipped range is \<open>[0, 2200000000)\<close>; the assignment \<open>skip_end = last_row\<close> wraps to
  \<open>-2094967296\<close>, and the single candidate range emitted is
  \<open>[-2094967296, 3000000000)\<close>: it contains row 0, which is skipped, and rows below 0.
\<close>

theorem process_page_index_int_truncation:
  "skipped_row_ranges_of pruning_ctx huge_row_group =
     Inr [\<lparr>first_row = 0, last_row = 2200000000\<rparr>] \<and>
   process_page_index pruning_ctx huge_row_group =
     Inr \<lparr>candidate_row_ranges = [\<lparr>first_row = - 2094967296, last_row = 3000000000\<rparr>],
          stat_read_rows = 5094967296, stat_filtered_page_rows = - 2094967296\<rparr> \<and>
   0 \<in> rows_of [\<lparr>first_row = - 2094967296, last_row = 3000000000\<rparr>] \<inter>
         rows_of [\<lparr>first_row = 0, last_row = 2200000000\<rparr>] \<and>
   - 1 \<in> rows_of [\<lparr>first_row = - 2094967296, last_row = 3000000000\<rparr>]"
  by (simp add: skipped_row_ranges_of_def process_page_index_def pruning_ctx_def
      huge_row_group_def ok_def candidates_from_skipped_def to_int32_def to_int64_def rows_of_def)

end
